theory Spec2Isabelle
  imports Main
begin

section \<open>BatchProcessor: a shallow embedding\<close>

text \<open>
  The program reads text files, builds one request per file with content, submits them as
  one batch to an external service, polls the batch status and writes each succeeded
  result next to its input file.  The external service and the file system are not part
  of the program: they are parameters of the model (\<open>env\<close>) and a component of the
  state (\<open>disk\<close>).  Every call the program makes to the outside and every log line is
  appended to a trace, so that claims about order (sleep between polls, no call to the
  service) are statements about that trace.
\<close>

subsection \<open>Paths\<close>

text \<open>
  A \<^verbatim>\<open>pathlib.Path\<close>: whether it has an anchor (root), and its components after the
  anchor.  A filename string of the source is represented by the path it parses to.
  Components never contain the separator.
\<close>

datatype path = Path (anchored: bool) (parts: "string list")

type_synonym filename = path

text \<open>\<^verbatim>\<open>base_dir / filename\<close>: an anchored right operand replaces the left one.\<close>

definition joinpath :: "path \<Rightarrow> filename \<Rightarrow> path" where
  "joinpath b f = (if anchored f then f else Path (anchored b) (parts b @ parts f))"

text \<open>\<^verbatim>\<open>Path.name\<close>: the final component, the empty string when there is none.\<close>

definition name :: "path \<Rightarrow> string" where
  "name p = (if parts p = [] then [] else last (parts p))"

text \<open>\<^verbatim>\<open>str.rfind\<close> for one character; \<open>None\<close> stands for the result -1.\<close>

fun rfind :: "string \<Rightarrow> char \<Rightarrow> nat option" where
  "rfind [] c = None"
| "rfind (x # xs) c =
     (case rfind xs c of
        Some i \<Rightarrow> Some (Suc i)
      | None \<Rightarrow> if x = c then Some 0 else None)"

text \<open>
  \<^verbatim>\<open>Path.suffix\<close> and \<^verbatim>\<open>Path.stem\<close> (Python up to 3.13):
  \<^verbatim>\<open>i = name.rfind('.'); if 0 < i < len(name) - 1: name[i:] / name[:i]\<close>,
  otherwise the suffix is empty and the stem is the whole name.
\<close>

definition suffix :: "path \<Rightarrow> string" where
  "suffix p =
     (let n = name p in
      case rfind n (CHR ''.'') of
        None \<Rightarrow> []
      | Some i \<Rightarrow> if 0 < i \<and> Suc i < length n then drop i n else [])"

definition stem :: "path \<Rightarrow> string" where
  "stem p =
     (let n = name p in
      case rfind n (CHR ''.'') of
        None \<Rightarrow> n
      | Some i \<Rightarrow> if 0 < i \<and> Suc i < length n then take i n else n)"

datatype exn =
    ValueError | UnboundLocalError | KeyError | IndexError | AttributeError
  | APIError string

text \<open>
  \<^verbatim>\<open>Path.with_name\<close>: replaces the final component; raises \<^verbatim>\<open>ValueError\<close> when the
  path has no name.  (Its other check, that the new name is a single non-empty component,
  cannot fail for the name built in \<open>write_optimized_content\<close>: it contains
  \<^verbatim>\<open>-OPTIMIZED\<close> and a separator only if the old name had one.)
\<close>

definition with_name :: "path \<Rightarrow> string \<Rightarrow> exn + path" where
  "with_name p n =
     (if parts p = [] then Inl ValueError
      else Inr (Path (anchored p) (butlast (parts p) @ [n])))"

subsection \<open>Requests, results, the trace\<close>

record message =
  role :: string
  content_type :: string
  content_text :: string

record request =
  custom_id :: string
  model :: string
  max_tokens :: nat
  temperature :: nat
  system :: string
  messages :: "message list"

text \<open>
  \<^verbatim>\<open>result.result.message.content\<close> is a list of blocks; only a text block has the
  attribute \<^verbatim>\<open>text\<close>.
\<close>

datatype block = TextBlock string | OtherBlock

record batch_result =
  res_custom_id :: string
  res_type :: string
  res_content :: "block list"

text \<open>The iterator of results yields a result or raises.\<close>

datatype ritem = Item batch_result | Fail exn

record message_batch =
  mb_id :: string
  processing_status :: string

datatype level = INFO | ERROR

datatype msg =
    FileNotFound path
  | ErrorReading path
  | WroteOptimized path
  | ErrorWriting path
  | BatchStatus string string
  | RequestFailed string
  | ErrorInBatch exn
  | NoValidFiles

datatype event =
    Log level msg
  | Create "request list"
  | Retrieve string
  | Sleep nat
  | Results string
  | Pbar_create nat
  | Pbar_update
  | Pbar_close

subsection \<open>The file system, the service, the state\<close>

text \<open>
  What opening a path for reading finds: no file (\<^verbatim>\<open>FileNotFoundError\<close>), something
  whose reading raises another exception (a directory, no permission, bytes that are not
  UTF-8), or a text.
\<close>

datatype node = Missing | Unreadable | File string

text \<open>
  How writing to a path ends: the write succeeds; \<^verbatim>\<open>open\<close> raises and the disk is
  unchanged; or \<^verbatim>\<open>open\<close> succeeds (the file is created or truncated) and the write
  raises, leaving the given text behind.
\<close>

datatype wmode = Writable | OpenFails | WriteFails string

record env =
  base_dir :: path
  system_prompt :: string
  write_outcome :: "path \<Rightarrow> wmode"
  batches_create :: "request list \<Rightarrow> exn + string"
  batches_retrieve :: "string \<Rightarrow> nat \<Rightarrow> exn + message_batch"
  batches_results :: "string \<Rightarrow> ritem list"

text \<open>
  \<open>batches_retrieve e b n\<close> is the answer to the \<open>n\<close>-th status request (counted from 0)
  for batch \<open>b\<close>; \<open>batches_results e b\<close> is what the iterator of results yields.

  The attribute \<^verbatim>\<open>custom_id_to_filename\<close> is a dictionary.  It is first assigned in
  \<open>prepare_batch_requests\<close>; the model takes it to exist.
\<close>

record state =
  disk :: "path \<Rightarrow> node"
  trace :: "event list"
  custom_id_to_filename :: "string \<rightharpoonup> filename"

definition emit :: "event list \<Rightarrow> state \<Rightarrow> state" where
  "emit evs s = s\<lparr>trace := trace s @ evs\<rparr>"

subsection \<open>Decimal numerals (\<^verbatim>\<open>f"req_{idx}"\<close>)\<close>

definition digit_char :: "nat \<Rightarrow> char" where
  "digit_char d = char_of (48 + d)"

function str_nat :: "nat \<Rightarrow> string" where
  "str_nat n = (if n < 10 then [digit_char n] else str_nat (n div 10) @ [digit_char (n mod 10)])"
  by pat_completeness auto
termination
  by (relation "measure (\<lambda>n. n)") auto

declare str_nat.simps [simp del]

definition req_id :: "nat \<Rightarrow> string" where
  "req_id idx = ''req_'' @ str_nat idx"

subsection \<open>read_file_content\<close>

definition read_file_content :: "state \<Rightarrow> path \<Rightarrow> string \<times> state" where
  "read_file_content s file_path =
     (case disk s file_path of
        File c \<Rightarrow> (c, s)
      | Missing \<Rightarrow> ([], emit [Log ERROR (FileNotFound file_path)] s)
      | Unreadable \<Rightarrow> ([], emit [Log ERROR (ErrorReading file_path)] s))"

subsection \<open>write_optimized_content\<close>

text \<open>
  When \<^verbatim>\<open>with_name\<close> raises, the handler's message reads \<^verbatim>\<open>optimized_path\<close>, which was
  never bound: the handler itself raises \<^verbatim>\<open>UnboundLocalError\<close>, which leaves the function.
\<close>

definition write_optimized_content :: "env \<Rightarrow> state \<Rightarrow> path \<Rightarrow> string \<Rightarrow> exn + state" where
  "write_optimized_content e s file_path content =
     (case with_name file_path (stem file_path @ ''-OPTIMIZED'' @ suffix file_path) of
        Inl x \<Rightarrow> Inl UnboundLocalError
      | Inr optimized_path \<Rightarrow>
          (case write_outcome e optimized_path of
             Writable \<Rightarrow>
               Inr (emit [Log INFO (WroteOptimized optimized_path)]
                      (s\<lparr>disk := (disk s)(optimized_path := File content)\<rparr>))
           | OpenFails \<Rightarrow>
               Inr (emit [Log ERROR (ErrorWriting optimized_path)] s)
           | WriteFails left \<Rightarrow>
               Inr (emit [Log ERROR (ErrorWriting optimized_path)]
                      (s\<lparr>disk := (disk s)(optimized_path := File left)\<rparr>))))"

subsection \<open>prepare_batch_requests\<close>

definition user_prefix :: string where
  "user_prefix = ''Modify the given text for voice synthesis:'' @ [CHR 0x0A, CHR 0x0A]"

definition mk_request :: "env \<Rightarrow> string \<Rightarrow> string \<Rightarrow> request" where
  "mk_request e cid content =
     \<lparr>custom_id = cid,
      model = ''claude-3-5-haiku-20241022'',
      max_tokens = 8192,
      temperature = 0,
      system = system_prompt e,
      messages = [\<lparr>role = ''user'', content_type = ''text'',
                   content_text = user_prefix @ content\<rparr>]\<rparr>"

text \<open>The loop over \<^verbatim>\<open>enumerate(files_to_process, 1)\<close>; \<open>idx\<close> is the running index.\<close>

fun prepare_loop :: "env \<Rightarrow> nat \<Rightarrow> filename list \<Rightarrow> request list \<times> state \<Rightarrow> request list \<times> state" where
  "prepare_loop e idx [] (requests, s) = (requests, s)"
| "prepare_loop e idx (filename # rest) (requests, s) =
     (let file_path = joinpath (base_dir e) filename;
          (content, s1) = read_file_content s file_path
      in if content \<noteq> [] then
           let cid = req_id idx;
               s2 = s1\<lparr>custom_id_to_filename := (custom_id_to_filename s1)(cid \<mapsto> filename)\<rparr>
           in prepare_loop e (Suc idx) rest (requests @ [mk_request e cid content], s2)
         else prepare_loop e (Suc idx) rest (requests, s1))"

definition prepare_batch_requests :: "env \<Rightarrow> state \<Rightarrow> filename list \<Rightarrow> request list \<times> state" where
  "prepare_batch_requests e s files_to_process =
     prepare_loop e 1 files_to_process ([], s\<lparr>custom_id_to_filename := Map.empty\<rparr>)"

subsection \<open>process_batch_results\<close>

text \<open>\<^verbatim>\<open>result.result.message.content[0].text\<close>\<close>

definition first_text :: "batch_result \<Rightarrow> exn + string" where
  "first_text r =
     (case res_content r of
        [] \<Rightarrow> Inl IndexError
      | TextBlock t # _ \<Rightarrow> Inr t
      | OtherBlock # _ \<Rightarrow> Inl AttributeError)"

text \<open>
  The pass over the results.  The outcome is \<open>None\<close> when the pass ends normally, and the
  exception that left it otherwise; the second component is \<^verbatim>\<open>processed_files\<close>.
\<close>

fun process_results :: "env \<Rightarrow> ritem list \<Rightarrow> state \<times> string set \<Rightarrow> exn option \<times> state \<times> string set" where
  "process_results e [] (s, processed) = (None, s, processed)"
| "process_results e (Fail x # rest) (s, processed) = (Some x, s, processed)"
| "process_results e (Item r # rest) (s, processed) =
     (if res_custom_id r \<in> processed then process_results e rest (s, processed)
      else if res_type r = ''succeeded'' then
        (case custom_id_to_filename s (res_custom_id r) of
           None \<Rightarrow> (Some KeyError, s, processed)
         | Some filename \<Rightarrow>
             (let file_path = joinpath (base_dir e) filename in
              case first_text r of
                Inl x \<Rightarrow> (Some x, s, processed)
              | Inr t \<Rightarrow>
                  (case write_optimized_content e s file_path t of
                     Inl x \<Rightarrow> (Some x, s, processed)
                   | Inr s1 \<Rightarrow>
                       process_results e rest
                         (emit [Pbar_update] s1, insert (res_custom_id r) processed))))
      else if res_type r \<in> {''errored'', ''expired''} then
        process_results e rest
          (emit [Log ERROR (RequestFailed (res_custom_id r)), Pbar_update] s,
           insert (res_custom_id r) processed)
      else process_results e rest (s, processed))"

definition retry_interval :: nat where
  "retry_interval = 5"

text \<open>
  The \<^verbatim>\<open>while\<close> loop; \<open>n\<close> counts the status requests made so far.  The loop may run
  forever, so the function returns an option: \<open>None\<close> is a loop that never ends.
\<close>

partial_function (option) poll_loop ::
  "env \<Rightarrow> string \<Rightarrow> filename list \<Rightarrow> nat \<Rightarrow> state \<times> string set \<Rightarrow> (exn option \<times> state \<times> string set) option" where
  [code]: "poll_loop e batch_id files_to_process n st =
     (if card (snd st) < length files_to_process then
        (case batches_retrieve e batch_id n of
           Inl x \<Rightarrow> Some (Some x, emit [Retrieve batch_id] (fst st), snd st)
         | Inr message_batch \<Rightarrow>
             (let s1 = emit [Retrieve batch_id,
                             Log INFO (BatchStatus (mb_id message_batch) (processing_status message_batch))]
                         (fst st)
              in if processing_status message_batch = ''in_progress'' then
                   poll_loop e batch_id files_to_process (Suc n) (emit [Sleep retry_interval] s1, snd st)
                 else if processing_status message_batch = ''ended'' then
                   Some (process_results e (batches_results e batch_id)
                           (emit [Results batch_id] s1, snd st))
                 else poll_loop e batch_id files_to_process (Suc n) (s1, snd st)))
      else Some (None, fst st, snd st))"

text \<open>
  The body of the \<^verbatim>\<open>try\<close>, then the handler, which logs and raises again.  The result is
  the exception that leaves the function (\<open>Inl\<close>) or the normal return, with the final
  state and \<^verbatim>\<open>processed_files\<close>.
\<close>

definition process_batch_results_body ::
  "env \<Rightarrow> string \<Rightarrow> filename list \<Rightarrow> state \<Rightarrow> (exn option \<times> state \<times> string set) option" where
  "process_batch_results_body e batch_id files_to_process s =
     (case poll_loop e batch_id files_to_process 0
             (emit [Pbar_create (length files_to_process)] s, {}) of
        None \<Rightarrow> None
      | Some (Some x, s1, processed) \<Rightarrow> Some (Some x, s1, processed)
      | Some (None, s1, processed) \<Rightarrow> Some (None, emit [Pbar_close] s1, processed))"

definition process_batch_results ::
  "env \<Rightarrow> string \<Rightarrow> filename list \<Rightarrow> state \<Rightarrow> ((exn + unit) \<times> state \<times> string set) option" where
  "process_batch_results e batch_id files_to_process s =
     (case process_batch_results_body e batch_id files_to_process s of
        None \<Rightarrow> None
      | Some (Some x, s1, processed) \<Rightarrow>
          Some (Inl x, emit [Log ERROR (ErrorInBatch x)] s1, processed)
      | Some (None, s1, processed) \<Rightarrow> Some (Inr (), s1, processed))"

subsection \<open>process_files\<close>

definition process_files_body :: "env \<Rightarrow> state \<Rightarrow> filename list \<Rightarrow> ((exn + unit) \<times> state) option" where
  "process_files_body e s files_to_process =
     (let (requests, s1) = prepare_batch_requests e s files_to_process in
      if requests = [] then Some (Inr (), emit [Log ERROR NoValidFiles] s1)
      else
        (case batches_create e requests of
           Inl x \<Rightarrow> Some (Inl x, emit [Create requests] s1)
         | Inr message_batch_id \<Rightarrow>
             (case process_batch_results e message_batch_id files_to_process
                     (emit [Create requests] s1) of
                None \<Rightarrow> None
              | Some (r, s2, processed) \<Rightarrow> Some (r, s2))))"

text \<open>The handler of \<open>process_files\<close> logs and does not raise again.\<close>

definition process_files :: "env \<Rightarrow> state \<Rightarrow> filename list \<Rightarrow> ((exn + unit) \<times> state) option" where
  "process_files e s files_to_process =
     (case process_files_body e s files_to_process of
        None \<Rightarrow> None
      | Some (Inl x, s1) \<Rightarrow> Some (Inr (), emit [Log ERROR (ErrorInBatch x)] s1)
      | Some (Inr u, s1) \<Rightarrow> Some (Inr (), s1))"


section \<open>Notions used to state the properties\<close>

text \<open>A file has content when reading it gives a non-empty text.\<close>

definition has_content :: "env \<Rightarrow> (path \<Rightarrow> node) \<Rightarrow> filename \<Rightarrow> bool" where
  "has_content e d f = (case d (joinpath (base_dir e) f) of File c \<Rightarrow> c \<noteq> [] | _ \<Rightarrow> False)"

definition file_text :: "env \<Rightarrow> (path \<Rightarrow> node) \<Rightarrow> filename \<Rightarrow> string" where
  "file_text e d f = (case d (joinpath (base_dir e) f) of File c \<Rightarrow> c | _ \<Rightarrow> [])"

text \<open>
  The files that get a request, each with its position in the input list counted from
  \<open>idx\<close>.
\<close>

definition issued :: "env \<Rightarrow> (path \<Rightarrow> node) \<Rightarrow> nat \<Rightarrow> filename list \<Rightarrow> (nat \<times> filename) list" where
  "issued e d idx fs = filter (\<lambda>p. has_content e d (snd p)) (List.enumerate idx fs)"

text \<open>Reading a decimal numeral back.\<close>

definition nat_of_str :: "string \<Rightarrow> nat" where
  "nat_of_str cs = foldl (\<lambda>a c. 10 * a + (of_char c - 48)) 0 cs"

section \<open>A small world to run the program in\<close>

text \<open>
  The base directory holds one file, \<^verbatim>\<open>a.md\<close>, with the text \<^verbatim>\<open>Hello\<close>; the service
  accepts the batch, reports it ended at once, and returns the text \<^verbatim>\<open>Hi\<close> for \<open>req_1\<close>.
\<close>

definition ex_base :: path where "ex_base = Path True [''data'']"
definition a_md :: filename where "a_md = Path False [''a.md'']"
definition b_md :: filename where "b_md = Path False [''b.md'']"

definition ex_disk :: "path \<Rightarrow> node" where
  "ex_disk p = (if p = Path True [''data'', ''a.md''] then File ''Hello'' else Missing)"

definition ex_state :: state where
  "ex_state = \<lparr>disk = ex_disk, trace = [], custom_id_to_filename = Map.empty\<rparr>"

definition ex_result :: batch_result where
  "ex_result = \<lparr>res_custom_id = ''req_1'', res_type = ''succeeded'', res_content = [TextBlock ''Hi'']\<rparr>"

definition ex_env :: env where
  "ex_env = \<lparr>base_dir = ex_base, system_prompt = ''S'',
             write_outcome = (\<lambda>p. Writable),
             batches_create = (\<lambda>rs. Inr ''batch_1''),
             batches_retrieve = (\<lambda>b n. Inr \<lparr>mb_id = b, processing_status = ''ended''\<rparr>),
             batches_results = (\<lambda>b. [Item ex_result])\<rparr>"

text \<open>What reading one file of the list appends to the log.\<close>

definition read_log :: "env \<Rightarrow> (path \<Rightarrow> node) \<Rightarrow> filename \<Rightarrow> event list" where
  "read_log e d f =
     (case d (joinpath (base_dir e) f) of
        File c \<Rightarrow> []
      | Missing \<Rightarrow> [Log ERROR (FileNotFound (joinpath (base_dir e) f))]
      | Unreadable \<Rightarrow> [Log ERROR (ErrorReading (joinpath (base_dir e) f))])"

text \<open>The events that are calls to the external service.\<close>

fun is_service_call :: "event \<Rightarrow> bool" where
  "is_service_call (Create rs) = True"
| "is_service_call (Retrieve b) = True"
| "is_service_call (Results b) = True"
| "is_service_call ev = False"

text \<open>The sibling of a file whose name is the stem, then \<^verbatim>\<open>-OPTIMIZED\<close>, then the suffix.\<close>

definition optimized_path :: "path \<Rightarrow> path" where
  "optimized_path p =
     Path (anchored p) (butlast (parts p) @ [stem p @ ''-OPTIMIZED'' @ suffix p])"

text \<open>A second result for \<open>req_1\<close>, with outcome \<^verbatim>\<open>errored\<close>.\<close>

definition ex_errored :: batch_result where
  "ex_errored = \<lparr>res_custom_id = ''req_1'', res_type = ''errored'', res_content = []\<rparr>"

text \<open>
  What a run of status requests adds to the trace, given the batches the service answered
  with: the request, the log line, and the sleep when the status is \<^verbatim>\<open>in_progress\<close>.
\<close>

definition poll_trace :: "string \<Rightarrow> message_batch list \<Rightarrow> event list" where
  "poll_trace b mbs =
     concat (map (\<lambda>mb. [Retrieve b, Log INFO (BatchStatus (mb_id mb) (processing_status mb))] @
                        (if processing_status mb = ''in_progress'' then [Sleep retry_interval] else []))
               mbs)"

text \<open>The service reports \<^verbatim>\<open>in_progress\<close> twice, then \<^verbatim>\<open>ended\<close>.\<close>

definition ex_env_slow :: env where
  "ex_env_slow =
     ex_env\<lparr>batches_retrieve :=
       (\<lambda>b n. Inr \<lparr>mb_id = b,
                      processing_status = (if n < 2 then ''in_progress'' else ''ended'')\<rparr>)\<rparr>"

text \<open>The only result of the batch has the outcome \<^verbatim>\<open>canceled\<close>.\<close>

definition ex_env_canceled :: env where
  "ex_env_canceled =
     ex_env\<lparr>batches_results :=
       (\<lambda>b. [Item \<lparr>res_custom_id = ''req_1'', res_type = ''canceled'', res_content = []\<rparr>])\<rparr>"

text \<open>The service refuses the batch.\<close>

definition ex_env_down :: env where
  "ex_env_down = ex_env\<lparr>batches_create := (\<lambda>rs. Inl (APIError ''overloaded''))\<rparr>"

text \<open>The service accepts the batch and fails on the first status request.\<close>

definition ex_env_unreachable :: env where
  "ex_env_unreachable = ex_env\<lparr>batches_retrieve := (\<lambda>b n. Inl (APIError ''timeout''))\<rparr>"

text \<open>The batch ends, and fetching its results fails.\<close>

definition ex_env_broken :: env where
  "ex_env_broken = ex_env\<lparr>batches_results := (\<lambda>b. [Fail (APIError ''reset'')])\<rparr>"

text \<open>
  The files with content come first: after the first file of the list that is skipped, no
  file has content.
\<close>

definition content_first :: "env \<Rightarrow> (path \<Rightarrow> node) \<Rightarrow> filename list \<Rightarrow> bool" where
  "content_first e d fs = (filter (has_content e d) (dropWhile (has_content e d) fs) = [])"

text \<open>The batch ends; the first result arrives, then fetching the results fails.\<close>

definition ex_env_cut :: env where
  "ex_env_cut = ex_env\<lparr>batches_results := (\<lambda>b. [Item ex_result, Fail (APIError ''reset'')])\<rparr>"






section \<open>Request preparation\<close>

lemma of_char_digit: "d < 10 \<Longrightarrow> (of_char (digit_char d) :: nat) = 48 + d"
  by (simp add: digit_char_def)

lemma nat_of_str_str_nat: "nat_of_str (str_nat n) = n"
proof (induction n rule: str_nat.induct)
  case (1 n)
  show ?case
  proof (cases "n < 10")
    case True
    then show ?thesis by (subst str_nat.simps) (simp add: nat_of_str_def of_char_digit)
  next
    case False
    with 1 have "nat_of_str (str_nat (n div 10)) = n div 10" by simp
    with False show ?thesis
      by (subst str_nat.simps) (simp add: nat_of_str_def of_char_digit)
  qed
qed

lemma str_nat_inj: "str_nat m = str_nat n \<Longrightarrow> m = n"
  by (metis nat_of_str_str_nat)

lemma read_disk: "disk (snd (read_file_content s p)) = disk s"
  by (simp add: read_file_content_def emit_def split: node.splits)

lemma read_fst: "fst (read_file_content s (joinpath (base_dir e) f)) = file_text e (disk s) f"
  by (simp add: read_file_content_def file_text_def split: node.splits)

lemma read_nonempty: "(fst (read_file_content s (joinpath (base_dir e) f)) \<noteq> []) = has_content e (disk s) f"
  by (simp add: read_file_content_def has_content_def split: node.splits)

lemma issued_Nil: "issued e d idx [] = []"
  by (simp add: issued_def)

lemma issued_Cons:
  "issued e d idx (f # fs) =
     (if has_content e d f then (idx, f) # issued e d (Suc idx) fs else issued e d (Suc idx) fs)"
  by (simp add: issued_def)

lemma prepare_loop_disk: "disk (snd (prepare_loop e idx fs (rs, s))) = disk s"
proof (induction fs arbitrary: idx rs s)
  case Nil
  then show ?case by simp
next
  case (Cons f fs)
  obtain c s1 where r: "read_file_content s (joinpath (base_dir e) f) = (c, s1)"
    by (cases "read_file_content s (joinpath (base_dir e) f)")
  have d: "disk s1 = disk s" using read_disk [of s "joinpath (base_dir e) f"] r by simp
  show ?case using Cons.IH r d by (simp add: Let_def)
qed

lemma prepare_loop_requests:
  "fst (prepare_loop e idx fs (rs, s)) =
     rs @ map (\<lambda>p. mk_request e (req_id (fst p)) (file_text e (disk s) (snd p)))
            (issued e (disk s) idx fs)"
proof (induction fs arbitrary: idx rs s)
  case Nil
  then show ?case by (simp add: issued_Nil)
next
  case (Cons f fs)
  obtain c s1 where r: "read_file_content s (joinpath (base_dir e) f) = (c, s1)"
    by (cases "read_file_content s (joinpath (base_dir e) f)")
  have d: "disk s1 = disk s" using read_disk [of s "joinpath (base_dir e) f"] r by simp
  have c: "c = file_text e (disk s) f" using read_fst [of s e f] r by simp
  have h: "(c \<noteq> []) = has_content e (disk s) f" using read_nonempty [of s e f] r by simp
  show ?case
  proof (cases "c \<noteq> []")
    case True
    then show ?thesis using Cons.IH r d c h by (simp add: Let_def issued_Cons)
  next
    case False
    then show ?thesis using Cons.IH r d c h by (simp add: Let_def issued_Cons)
  qed
qed


lemma req_id_inj: "req_id i = req_id j \<Longrightarrow> i = j"
  by (simp add: req_id_def str_nat_inj)

lemma inj_req_id: "inj req_id"
  by (rule injI) (rule req_id_inj)

lemma distinct_fst_issued: "distinct (map fst (issued e d idx fs))"
  unfolding issued_def by (rule distinct_map_filter) simp

lemma distinct_issued_ids: "distinct (map (\<lambda>p. req_id (fst p)) (issued e d idx fs))"
  using distinct_fst_issued [of e d idx fs]
  by (auto simp: distinct_map inj_on_def comp_def dest: req_id_inj)

lemma map_of_rev_distinct: "distinct (map fst xs) \<Longrightarrow> map_of (rev xs) = map_of xs"
proof (induction xs)
  case Nil
  then show ?case by simp
next
  case (Cons a xs)
  then have "fst a \<notin> dom (map_of xs)" by (simp add: dom_map_of_conv_image_fst)
  then have "map_of xs (fst a) = None" by blast
  with Cons show ?case
    by (cases a) (auto simp: map_add_def fun_eq_iff split: option.splits)
qed

lemma prepare_loop_mapping:
  "custom_id_to_filename (snd (prepare_loop e idx fs (rs, s))) =
     custom_id_to_filename s ++
       map_of (rev (map (\<lambda>p. (req_id (fst p), snd p)) (issued e (disk s) idx fs)))"
proof (induction fs arbitrary: idx rs s)
  case Nil
  then show ?case by (simp add: issued_Nil issued_Cons)
next
  case (Cons f fs)
  obtain c s1 where r: "read_file_content s (joinpath (base_dir e) f) = (c, s1)"
    by (cases "read_file_content s (joinpath (base_dir e) f)")
  have d: "disk s1 = disk s" using read_disk [of s "joinpath (base_dir e) f"] r by simp
  have m: "custom_id_to_filename s1 = custom_id_to_filename s"
    using r by (auto simp: read_file_content_def emit_def split: node.splits)
  have h: "(c \<noteq> []) = has_content e (disk s) f" using read_nonempty [of s e f] r by simp
  show ?case
  proof (cases "c \<noteq> []")
    case True
    have "custom_id_to_filename (snd (prepare_loop e idx (f # fs) (rs, s))) =
          custom_id_to_filename
            (snd (prepare_loop e (Suc idx) fs
                    (rs @ [mk_request e (req_id idx) c],
                     s1\<lparr>custom_id_to_filename := (custom_id_to_filename s1)(req_id idx \<mapsto> f)\<rparr>)))"
      using True r by (simp add: Let_def)
    also have "\<dots> = (custom_id_to_filename s)(req_id idx \<mapsto> f) ++
          map_of (rev (map (\<lambda>p. (req_id (fst p), snd p)) (issued e (disk s) (Suc idx) fs)))"
      by (subst Cons.IH) (simp add: d m)
    also have "\<dots> = custom_id_to_filename s ++
          map_of (rev (map (\<lambda>p. (req_id (fst p), snd p)) (issued e (disk s) idx (f # fs))))"
      using True h by (simp add: issued_Nil issued_Cons)
    finally show ?thesis .
  next
    case False
    then show ?thesis using Cons.IH r d m h by (simp add: Let_def issued_Cons)
  qed
qed

lemma prepare_requests:
  "fst (prepare_batch_requests e s fs) =
     map (\<lambda>p. mk_request e (req_id (fst p)) (file_text e (disk s) (snd p))) (issued e (disk s) 1 fs)"
  using prepare_loop_requests [of e 1 fs "[]" "s\<lparr>custom_id_to_filename := Map.empty\<rparr>"]
  by (simp add: prepare_batch_requests_def)

lemma prepare_ids:
  "map custom_id (fst (prepare_batch_requests e s fs)) =
     map (\<lambda>p. req_id (fst p)) (issued e (disk s) 1 fs)"
  by (simp add: prepare_requests mk_request_def case_prod_beta comp_def)

lemma prepare_mapping:
  "custom_id_to_filename (snd (prepare_batch_requests e s fs)) =
     map_of (map (\<lambda>p. (req_id (fst p), snd p)) (issued e (disk s) 1 fs))"
proof -
  let ?l = "map (\<lambda>p. (req_id (fst p), snd p)) (issued e (disk s) 1 fs)"
  have "map fst ?l = map (\<lambda>p. req_id (fst p)) (issued e (disk s) 1 fs)"
    by (simp add: case_prod_beta comp_def)
  with distinct_issued_ids [of e "disk s" 1 fs] have "distinct (map fst ?l)" by (simp only:)
  then have "map_of (rev ?l) = map_of ?l" by (rule map_of_rev_distinct)
  then show ?thesis
    using prepare_loop_mapping [of e 1 fs "[]" "s\<lparr>custom_id_to_filename := Map.empty\<rparr>"]
    by (simp add: prepare_batch_requests_def)
qed

lemma prepare_disk: "disk (snd (prepare_batch_requests e s fs)) = disk s"
  using prepare_loop_disk [of e 1 fs "[]" "s\<lparr>custom_id_to_filename := Map.empty\<rparr>"]
  by (simp add: prepare_batch_requests_def)

lemma req_id_1: "req_id (Suc 0) = ''req_1''"
  by code_simp

lemma req_id_2: "req_id (Suc (Suc 0)) = ''req_2''"
  by code_simp

lemma ex_has_a: "has_content ex_env ex_disk a_md"
  by (simp add: has_content_def ex_env_def ex_disk_def a_md_def ex_base_def joinpath_def)

lemma ex_has_b: "\<not> has_content ex_env ex_disk b_md"
  by (simp add: has_content_def ex_env_def ex_disk_def b_md_def ex_base_def joinpath_def)

lemma map_snd_issued: "map snd (issued e d idx fs) = filter (has_content e d) fs"
  by (induction fs arbitrary: idx) (simp_all add: issued_Nil issued_Cons)

lemma issued_all: "\<forall>f\<in>set fs. has_content e d f \<Longrightarrow> issued e d idx fs = List.enumerate idx fs"
  by (induction fs arbitrary: idx) (simp_all add: issued_Nil issued_Cons)

lemma sorted_fst_issued: "sorted_wrt (<) (map fst (issued e d idx fs))"
proof -
  have "sorted_wrt (<) (map fst (List.enumerate idx fs))" by simp
  then have "sorted_wrt (\<lambda>p q. fst p < fst q) (List.enumerate idx fs)"
    by (simp only: sorted_wrt_map)
  then have "sorted_wrt (\<lambda>p q. fst p < fst q) (issued e d idx fs)"
    unfolding issued_def by (rule sorted_wrt_filter)
  then show ?thesis by (simp only: sorted_wrt_map)
qed

subsection \<open>Custom ids\<close>

text \<open>
  C2, as stated: the custom ids of the returned requests are \<open>req_1\<close>, \<open>req_2\<close>, ...
  without gaps, whatever the files are.  It fails when a file is skipped: for a missing
  file followed by a file with content, the only request has the id \<open>req_2\<close>.
\<close>

theorem C2_counterexample:
  "map custom_id (fst (prepare_batch_requests ex_env ex_state [b_md, a_md])) = [''req_2''] \<and>
   map custom_id (fst (prepare_batch_requests ex_env ex_state [b_md, a_md])) \<noteq> [''req_1'']"
  by (simp add: prepare_ids issued_Cons issued_Nil ex_state_def ex_has_a ex_has_b req_id_2)

lemma issued_fst_ge: "p \<in> set (issued e d idx fs) \<Longrightarrow> idx \<le> fst p"
proof (induction fs arbitrary: idx)
  case Nil
  then show ?case by (simp add: issued_Nil)
next
  case (Cons f fs)
  from Cons.prems have "p = (idx, f) \<or> p \<in> set (issued e d (Suc idx) fs)"
    by (simp add: issued_Cons split: if_splits)
  then show ?case
  proof
    assume "p = (idx, f)"
    then show ?thesis by simp
  next
    assume "p \<in> set (issued e d (Suc idx) fs)"
    then have "Suc idx \<le> fst p" by (rule Cons.IH)
    then show ?thesis by simp
  qed
qed

lemma length_issued: "length (issued e d idx fs) = length (filter (has_content e d) fs)"
  using map_snd_issued [of e d idx fs] by (metis length_map)

lemma issued_positions_prefix:
  "(map fst (issued e d idx fs) = [idx..<idx + length (issued e d idx fs)]) = content_first e d fs"
proof (induction fs arbitrary: idx)
  case Nil
  show ?case by (simp add: issued_Nil content_first_def)
next
  case (Cons f fs)
  show ?case
  proof (cases "has_content e d f")
    case True
    have u: "[idx..<idx + Suc n] = idx # [Suc idx..<Suc idx + n]" for n
      by (simp add: upt_rec)
    from True have c: "content_first e d (f # fs) = content_first e d fs"
      by (simp add: content_first_def)
    from True have "map fst (issued e d idx (f # fs)) = idx # map fst (issued e d (Suc idx) fs)"
      and "length (issued e d idx (f # fs)) = Suc (length (issued e d (Suc idx) fs))"
      by (simp_all add: issued_Cons)
    then have "(map fst (issued e d idx (f # fs)) = [idx..<idx + length (issued e d idx (f # fs))]) =
               (map fst (issued e d (Suc idx) fs) = [Suc idx..<Suc idx + length (issued e d (Suc idx) fs)])"
      by (simp only: u list.inject simp_thms)
    with Cons.IH [of "Suc idx"] c show ?thesis by (simp only:)
  next
    case False
    then have i: "issued e d idx (f # fs) = issued e d (Suc idx) fs" by (simp add: issued_Cons)
    from False have c: "content_first e d (f # fs) = (filter (has_content e d) fs = [])"
      by (simp add: content_first_def)
    show ?thesis
    proof (cases "issued e d (Suc idx) fs")
      case Nil
      then have "length (filter (has_content e d) fs) = 0"
        using length_issued [of e d "Suc idx" fs] by simp
      then have "filter (has_content e d) fs = []" by simp
      with Nil i c show ?thesis by simp
    next
      case (Cons p ps)
      then have "p \<in> set (issued e d (Suc idx) fs)" by simp
      then have ge: "Suc idx \<le> fst p" by (rule issued_fst_ge)
      from Cons have "length (filter (has_content e d) fs) = Suc (length ps)"
        using length_issued [of e d "Suc idx" fs] by simp
      then have ne: "filter (has_content e d) fs \<noteq> []" by auto
      have "[idx..<idx + Suc (length ps)] = idx # [Suc idx..<Suc idx + length ps]"
        by (simp add: upt_rec)
      with ge have "map fst (p # ps) \<noteq> [idx..<idx + length (p # ps)]" by simp
      with Cons i c ne show ?thesis by simp
    qed
  qed
qed

lemma map_req_id_eq: "(map req_id xs = map req_id ys) = (xs = ys)"
  by (rule inj_map_eq_map [OF inj_req_id])

lemma prepare_length:
  "length (fst (prepare_batch_requests e s fs)) = length (issued e (disk s) 1 fs)"
  by (simp add: prepare_requests)

lemma prepare_ids_positions:
  "map custom_id (fst (prepare_batch_requests e s fs)) = map req_id (map fst (issued e (disk s) 1 fs))"
  by (simp only: prepare_ids map_map comp_def)

lemma ids_gap_free:
  "(map custom_id (fst (prepare_batch_requests e s fs)) =
      map req_id [1..<Suc (length (fst (prepare_batch_requests e s fs)))]) =
   content_first e (disk s) fs"
proof -
  have "[1..<Suc (length (issued e (disk s) 1 fs))] = [1..<1 + length (issued e (disk s) 1 fs)]"
    by simp
  then show ?thesis
    using issued_positions_prefix [of e "disk s" 1 fs]
    by (simp only: prepare_ids_positions prepare_length map_req_id_eq)
qed

lemma ids_total:
  "(map custom_id (fst (prepare_batch_requests e s fs)) = map req_id [1..<Suc (length fs)]) =
   (\<forall>f\<in>set fs. has_content e (disk s) f)"
proof
  assume "map custom_id (fst (prepare_batch_requests e s fs)) = map req_id [1..<Suc (length fs)]"
  then have "length (map custom_id (fst (prepare_batch_requests e s fs))) =
             length (map req_id [1..<Suc (length fs)])" by (simp only:)
  then have l: "length (filter (has_content e (disk s)) fs) = length fs"
    by (simp add: prepare_length length_issued del: upt_Suc)
  show "\<forall>f\<in>set fs. has_content e (disk s) f"
  proof
    fix f assume "f \<in> set fs"
    show "has_content e (disk s) f"
    proof (rule ccontr)
      assume "\<not> has_content e (disk s) f"
      with \<open>f \<in> set fs\<close> have "length (filter (has_content e (disk s)) fs) < length fs"
        by (rule length_filter_less)
      with l show False by simp
    qed
  qed
next
  assume "\<forall>f\<in>set fs. has_content e (disk s) f"
  then have i: "issued e (disk s) 1 fs = List.enumerate 1 fs" by (rule issued_all)
  have u: "map fst (List.enumerate 1 fs) = [1..<Suc (length fs)]" by (simp del: upt_Suc)
  show "map custom_id (fst (prepare_batch_requests e s fs)) = map req_id [1..<Suc (length fs)]"
    by (simp only: prepare_ids_positions i u)
qed

lemma ex_has_a_state: "has_content ex_env (disk ex_state) a_md"
  using ex_has_a by (simp add: ex_state_def)

lemma ex_has_b_state: "\<not> has_content ex_env (disk ex_state) b_md"
  using ex_has_b by (simp add: ex_state_def)

text \<open>
  C2, amended: the custom id of a request is \<open>req_i\<close> where \<open>i\<close> is the position
  (from 1) of its file in the input list; the ids are pairwise distinct and their
  positions strictly increase.  They are \<open>req_1\<close>, \<open>req_2\<close>, ... without gaps in the
  returned list exactly when no skipped file comes before a file with content; and they
  are \<open>req_1\<close>, ..., \<open>req_n\<close> for the \<open>n\<close> files of the input list exactly when no file
  is skipped.
\<close>

theorem C2_ids:
  "map custom_id (fst (prepare_batch_requests e s fs)) =
     map (\<lambda>p. req_id (fst p)) (issued e (disk s) 1 fs) \<and>
   sorted_wrt (<) (map fst (issued e (disk s) 1 fs)) \<and>
   distinct (map custom_id (fst (prepare_batch_requests e s fs))) \<and>
   ((map custom_id (fst (prepare_batch_requests e s fs)) =
       map req_id [1..<Suc (length (fst (prepare_batch_requests e s fs)))]) =
    content_first e (disk s) fs) \<and>
   ((map custom_id (fst (prepare_batch_requests e s fs)) = map req_id [1..<Suc (length fs)]) =
    (\<forall>f\<in>set fs. has_content e (disk s) f))"
proof (intro conjI)
  show "map custom_id (fst (prepare_batch_requests e s fs)) =
     map (\<lambda>p. req_id (fst p)) (issued e (disk s) 1 fs)" by (rule prepare_ids)
  show "sorted_wrt (<) (map fst (issued e (disk s) 1 fs))" by (rule sorted_fst_issued)
  show "distinct (map custom_id (fst (prepare_batch_requests e s fs)))"
    by (simp only: prepare_ids distinct_issued_ids)
  show "(map custom_id (fst (prepare_batch_requests e s fs)) =
       map req_id [1..<Suc (length (fst (prepare_batch_requests e s fs)))]) =
    content_first e (disk s) fs" by (rule ids_gap_free)
  show "(map custom_id (fst (prepare_batch_requests e s fs)) = map req_id [1..<Suc (length fs)]) =
    (\<forall>f\<in>set fs. has_content e (disk s) f)" by (rule ids_total)
qed

theorem C2_ids_witness:
  "has_content ex_env (disk ex_state) a_md \<and> \<not> has_content ex_env (disk ex_state) b_md \<and>
   content_first ex_env (disk ex_state) [a_md, b_md] \<and>
   map custom_id (fst (prepare_batch_requests ex_env ex_state [a_md, b_md])) = [''req_1''] \<and>
   map custom_id (fst (prepare_batch_requests ex_env ex_state [a_md, b_md])) \<noteq> [''req_1'', ''req_2''] \<and>
   \<not> content_first ex_env (disk ex_state) [b_md, a_md] \<and>
   map custom_id (fst (prepare_batch_requests ex_env ex_state [b_md, a_md])) \<noteq> [''req_1''] \<and>
   map custom_id (fst (prepare_batch_requests ex_env ex_state [a_md])) = [''req_1'']"
proof -
  have l1: "length (fst (prepare_batch_requests ex_env ex_state [a_md, b_md])) = 1"
    and l2: "length (fst (prepare_batch_requests ex_env ex_state [b_md, a_md])) = 1"
    by (simp_all add: prepare_length issued_Cons issued_Nil ex_has_a_state ex_has_b_state)
  have c1: "content_first ex_env (disk ex_state) [a_md, b_md]"
    and c2: "\<not> content_first ex_env (disk ex_state) [b_md, a_md]"
    by (simp_all add: content_first_def ex_has_a_state ex_has_b_state)
  show ?thesis
    using C2_ids [of ex_env ex_state "[a_md, b_md]"] C2_ids [of ex_env ex_state "[b_md, a_md]"]
      C2_ids [of ex_env ex_state "[a_md]"]
    by (simp add: l1 l2 c1 c2 ex_has_a_state ex_has_b_state req_id_1 req_id_2 issued_Cons issued_Nil)
qed

subsection \<open>Number of requests\<close>

text \<open>
  C3: the number of requests is the number of files of the list whose content reads back
  as a non-empty text; each request carries the text of its file, in the order of the
  list; missing, unreadable and empty files give no request.  The function has no
  exceptional result, and it leaves the disk as it was.
\<close>

theorem C3_request_count:
  "length (fst (prepare_batch_requests e s fs)) = length (filter (has_content e (disk s)) fs) \<and>
   map messages (fst (prepare_batch_requests e s fs)) =
     map (\<lambda>f. [\<lparr>role = ''user'', content_type = ''text'',
                  content_text = user_prefix @ file_text e (disk s) f\<rparr>])
       (filter (has_content e (disk s)) fs) \<and>
   disk (snd (prepare_batch_requests e s fs)) = disk s"
proof -
  have "map messages (fst (prepare_batch_requests e s fs)) =
     map (\<lambda>f. [\<lparr>role = ''user'', content_type = ''text'',
                  content_text = user_prefix @ file_text e (disk s) f\<rparr>])
       (map snd (issued e (disk s) 1 fs))"
    by (simp add: prepare_requests mk_request_def comp_def)
  moreover have "length (fst (prepare_batch_requests e s fs)) = length (map snd (issued e (disk s) 1 fs))"
    by (simp add: prepare_requests)
  ultimately show ?thesis by (simp only: map_snd_issued prepare_disk simp_thms)
qed

section \<open>The log of request preparation\<close>

lemma read_trace:
  "trace (snd (read_file_content s (joinpath (base_dir e) f))) = trace s @ read_log e (disk s) f"
  by (simp add: read_file_content_def read_log_def emit_def split: node.splits)

lemma prepare_loop_trace:
  "trace (snd (prepare_loop e idx fs (rs, s))) = trace s @ concat (map (read_log e (disk s)) fs)"
proof (induction fs arbitrary: idx rs s)
  case Nil
  then show ?case by simp
next
  case (Cons f fs)
  obtain c s1 where r: "read_file_content s (joinpath (base_dir e) f) = (c, s1)"
    by (cases "read_file_content s (joinpath (base_dir e) f)")
  have d: "disk s1 = disk s" using read_disk [of s "joinpath (base_dir e) f"] r by simp
  have t: "trace s1 = trace s @ read_log e (disk s) f" using read_trace [of s e f] r by simp
  show ?case using Cons.IH r d t by (simp add: Let_def)
qed

lemma prepare_trace:
  "trace (snd (prepare_batch_requests e s fs)) = trace s @ concat (map (read_log e (disk s)) fs)"
  using prepare_loop_trace [of e 1 fs "[]" "s\<lparr>custom_id_to_filename := Map.empty\<rparr>"]
  by (simp add: prepare_batch_requests_def)

lemma read_log_no_call: "filter is_service_call (read_log e d f) = []"
  by (simp add: read_log_def split: node.splits)

lemma read_logs_no_call: "filter is_service_call (concat (map (read_log e d) fs)) = []"
  by (induction fs) (simp_all add: read_log_no_call)

subsection \<open>No request, no submission\<close>

text \<open>
  C7: when \<open>prepare_batch_requests\<close> yields no request, \<open>process_files\<close> logs the error
  \<^verbatim>\<open>No valid files to process\<close> and returns normally; what it added to the trace are the
  read errors and that line, so the trace has no call to the service that it did not
  have before, and the disk is unchanged.
\<close>

theorem C7_no_requests:
  assumes "fst (prepare_batch_requests e s fs) = []"
  shows "process_files e s fs =
           Some (Inr (), emit [Log ERROR NoValidFiles] (snd (prepare_batch_requests e s fs))) \<and>
         trace (emit [Log ERROR NoValidFiles] (snd (prepare_batch_requests e s fs))) =
           trace s @ concat (map (read_log e (disk s)) fs) @ [Log ERROR NoValidFiles] \<and>
         filter is_service_call (trace (emit [Log ERROR NoValidFiles] (snd (prepare_batch_requests e s fs)))) =
           filter is_service_call (trace s) \<and>
         disk (emit [Log ERROR NoValidFiles] (snd (prepare_batch_requests e s fs))) = disk s"
proof -
  obtain rs s1 where p: "prepare_batch_requests e s fs = (rs, s1)"
    by (cases "prepare_batch_requests e s fs")
  with assms have rs: "rs = []" by simp
  have 1: "process_files e s fs = Some (Inr (), emit [Log ERROR NoValidFiles] s1)"
    using p rs by (simp add: process_files_def process_files_body_def)
  have t: "trace s1 = trace s @ concat (map (read_log e (disk s)) fs)"
    using prepare_trace [of e s fs] p by simp
  have d: "disk s1 = disk s" using prepare_disk [of e s fs] p by simp
  show ?thesis using 1 t d p by (simp add: emit_def read_logs_no_call)
qed

theorem C7_no_requests_witness:
  "fst (prepare_batch_requests ex_env ex_state [b_md]) = [] \<and>
   map_option (\<lambda>r. (fst r, trace (snd r))) (process_files ex_env ex_state [b_md]) =
     Some (Inr (), [Log ERROR (FileNotFound (Path True [''data'', ''b.md''])), Log ERROR NoValidFiles])"
proof -
  have h: "fst (prepare_batch_requests ex_env ex_state [b_md]) = []"
    by (simp add: prepare_requests issued_Cons issued_Nil ex_state_def ex_has_b)
  have r: "read_log ex_env ex_disk b_md = [Log ERROR (FileNotFound (Path True [''data'', ''b.md'']))]"
    by (simp add: read_log_def ex_env_def ex_disk_def b_md_def ex_base_def joinpath_def)
  show ?thesis using h C7_no_requests [OF h] by (simp add: ex_state_def r)
qed

subsection \<open>The mapping from custom ids to filenames\<close>

text \<open>
  C9: after \<open>prepare_batch_requests\<close> the keys of the mapping are exactly the custom ids of
  the requests it returned; the mapping it leaves does not depend on the mapping it found
  (entries of an earlier call are discarded); so a result whose custom id is one of the
  returned requests resolves to a filename, which is a file of the list with content.
\<close>

theorem C9_mapping_fresh:
  "dom (custom_id_to_filename (snd (prepare_batch_requests e s fs))) =
     set (map custom_id (fst (prepare_batch_requests e s fs))) \<and>
   prepare_batch_requests e (s\<lparr>custom_id_to_filename := m\<rparr>) fs = prepare_batch_requests e s fs \<and>
   (\<forall>r. res_custom_id r \<in> set (map custom_id (fst (prepare_batch_requests e s fs))) \<longrightarrow>
      (\<exists>f. custom_id_to_filename (snd (prepare_batch_requests e s fs)) (res_custom_id r) = Some f \<and>
           f \<in> set fs \<and> has_content e (disk s) f))"
proof (intro conjI allI impI)
  let ?l = "map (\<lambda>p. (req_id (fst p), snd p)) (issued e (disk s) 1 fs)"
  have fl: "map fst ?l = map custom_id (fst (prepare_batch_requests e s fs))"
    by (simp add: prepare_ids comp_def)
  show dm: "dom (custom_id_to_filename (snd (prepare_batch_requests e s fs))) =
     set (map custom_id (fst (prepare_batch_requests e s fs)))"
    by (simp only: prepare_mapping dom_map_of_conv_image_fst fl [symmetric] set_map)
  show "prepare_batch_requests e (s\<lparr>custom_id_to_filename := m\<rparr>) fs = prepare_batch_requests e s fs"
    by (simp add: prepare_batch_requests_def)
  fix r
  assume "res_custom_id r \<in> set (map custom_id (fst (prepare_batch_requests e s fs)))"
  with dm obtain f where f: "custom_id_to_filename (snd (prepare_batch_requests e s fs)) (res_custom_id r) = Some f"
    by blast
  then have "map_of ?l (res_custom_id r) = Some f" by (simp only: prepare_mapping)
  then have "(res_custom_id r, f) \<in> set ?l" by (rule map_of_SomeD)
  then obtain p where "p \<in> set (issued e (disk s) 1 fs)" and "f = snd p" by auto
  then have "f \<in> set (map snd (issued e (disk s) 1 fs))" by simp
  then have "f \<in> set fs \<and> has_content e (disk s) f"
    by (simp add: map_snd_issued)
  with f show "\<exists>f. custom_id_to_filename (snd (prepare_batch_requests e s fs)) (res_custom_id r) = Some f \<and>
           f \<in> set fs \<and> has_content e (disk s) f" by blast
qed

theorem C9_mapping_fresh_witness:
  "res_custom_id ex_result \<in> set (map custom_id (fst (prepare_batch_requests ex_env ex_state [a_md]))) \<and>
   custom_id_to_filename (snd (prepare_batch_requests ex_env ex_state [a_md])) (res_custom_id ex_result) =
     Some a_md"
  using C9_mapping_fresh [of ex_env ex_state "[a_md]"]
  by (simp add: prepare_mapping prepare_ids issued_Cons issued_Nil ex_has_a req_id_1
        ex_state_def ex_result_def)

section \<open>Writing a result\<close>

lemma emit_emit: "emit b (emit a s) = emit (a @ b) s"
  by (simp add: emit_def)

lemma emit_fields:
  "disk (emit evs s) = disk s"
  "trace (emit evs s) = trace s @ evs"
  "custom_id_to_filename (emit evs s) = custom_id_to_filename s"
  by (simp_all add: emit_def)

lemma stem_suffix: "stem p @ suffix p = name p"
  by (simp add: stem_def suffix_def Let_def split: option.splits)

lemma with_name_named:
  "parts p \<noteq> [] \<Longrightarrow> with_name p (stem p @ ''-OPTIMIZED'' @ suffix p) = Inr (optimized_path p)"
  by (simp add: with_name_def optimized_path_def)



lemma write_writable:
  "parts fp \<noteq> [] \<Longrightarrow> write_outcome e (optimized_path fp) = Writable \<Longrightarrow>
   write_optimized_content e s fp t =
     Inr (emit [Log INFO (WroteOptimized (optimized_path fp))]
            (s\<lparr>disk := (disk s)(optimized_path fp := File t)\<rparr>))"
  by (simp add: write_optimized_content_def with_name_def optimized_path_def)



lemma write_mapping:
  "write_optimized_content e s fp t = Inr s' \<Longrightarrow> custom_id_to_filename s' = custom_id_to_filename s"
  by (auto simp: write_optimized_content_def emit_def split: sum.splits wmode.splits)

text \<open>
  A path without a name (the root directory, or the empty path): \<^verbatim>\<open>with_name\<close> raises
  \<^verbatim>\<open>ValueError\<close> inside the \<^verbatim>\<open>try\<close>, and the handler, whose message reads
  \<^verbatim>\<open>optimized_path\<close>, raises \<^verbatim>\<open>UnboundLocalError\<close>.  The program only writes next to a
  file it has read, and such a path holds no file.
\<close>

lemma write_unnamed_raises:
  "parts fp = [] \<Longrightarrow> write_optimized_content e s fp t = Inl UnboundLocalError"
  by (simp add: write_optimized_content_def with_name_def)

section \<open>The pass over the results\<close>

lemma process_results_skip:
  "res_custom_id r \<in> P \<Longrightarrow>
   process_results e (Item r # rest) (s, P) = process_results e rest (s, P)"
  by simp

lemma process_results_failed:
  "res_custom_id r \<notin> P \<Longrightarrow> res_type r = ''errored'' \<or> res_type r = ''expired'' \<Longrightarrow>
   process_results e (Item r # rest) (s, P) =
     process_results e rest
       (emit [Log ERROR (RequestFailed (res_custom_id r)), Pbar_update] s, insert (res_custom_id r) P)"
  by auto

lemma process_results_other:
  "res_custom_id r \<notin> P \<Longrightarrow> res_type r \<noteq> ''succeeded'' \<Longrightarrow>
   res_type r \<noteq> ''errored'' \<Longrightarrow> res_type r \<noteq> ''expired'' \<Longrightarrow>
   process_results e (Item r # rest) (s, P) = process_results e rest (s, P)"
  by simp

lemma process_results_succeeded:
  "res_custom_id r \<notin> P \<Longrightarrow> res_type r = ''succeeded'' \<Longrightarrow>
   custom_id_to_filename s (res_custom_id r) = Some f \<Longrightarrow> first_text r = Inr t \<Longrightarrow>
   write_optimized_content e s (joinpath (base_dir e) f) t = Inr s1 \<Longrightarrow>
   process_results e (Item r # rest) (s, P) =
     process_results e rest (emit [Pbar_update] s1, insert (res_custom_id r) P)"
  by simp

subsection \<open>The small world, evaluated\<close>

lemma ex_file_path: "joinpath (base_dir ex_env) a_md = Path True [''data'', ''a.md'']"
  by (simp add: ex_env_def ex_base_def a_md_def joinpath_def)

lemma ex_optimized_path:
  "optimized_path (Path True [''data'', ''a.md'']) = Path True [''data'', ''a-OPTIMIZED.md'']"
  by (simp add: optimized_path_def stem_def suffix_def name_def Let_def)

lemma ex_mapping:
  "custom_id_to_filename (snd (prepare_batch_requests ex_env ex_state [a_md])) ''req_1'' = Some a_md"
  by (simp add: prepare_mapping issued_Cons issued_Nil ex_has_a req_id_1 ex_state_def)

lemma ex_trace: "trace (snd (prepare_batch_requests ex_env ex_state [a_md])) = []"
  by (simp add: prepare_trace read_log_def ex_state_def ex_disk_def ex_file_path)

lemma ex_write:
  "write_optimized_content ex_env s (joinpath (base_dir ex_env) a_md) t =
     Inr (emit [Log INFO (WroteOptimized (Path True [''data'', ''a-OPTIMIZED.md'']))]
            (s\<lparr>disk := (disk s)(Path True [''data'', ''a-OPTIMIZED.md''] := File t)\<rparr>))"
proof -
  have "write_outcome ex_env (optimized_path (Path True [''data'', ''a.md''])) = Writable"
    by (simp add: ex_env_def)
  then show ?thesis
    using write_writable [of "Path True [''data'', ''a.md'']" ex_env s t]
    by (simp add: ex_file_path ex_optimized_path)
qed

subsection \<open>Failed results\<close>

text \<open>
  C5, as stated: for every result with outcome \<^verbatim>\<open>errored\<close> or \<^verbatim>\<open>expired\<close> a failure is
  logged.  It fails for a result whose custom id is already marked processed: the loop
  skips it before it looks at the outcome.  Here \<open>req_1\<close> succeeds and a second result
  for \<open>req_1\<close> is \<^verbatim>\<open>errored\<close>; the pass writes the file and logs no failure.
\<close>

theorem C5_counterexample:
  "res_type ex_errored = ''errored'' \<and>
   process_results ex_env [Item ex_result, Item ex_errored]
       (snd (prepare_batch_requests ex_env ex_state [a_md]), {}) =
     (None,
      emit [Log INFO (WroteOptimized (Path True [''data'', ''a-OPTIMIZED.md''])), Pbar_update]
        ((snd (prepare_batch_requests ex_env ex_state [a_md]))
           \<lparr>disk := (disk (snd (prepare_batch_requests ex_env ex_state [a_md])))
              (Path True [''data'', ''a-OPTIMIZED.md''] := File ''Hi'')\<rparr>),
      {''req_1''}) \<and>
   trace (snd (prepare_batch_requests ex_env ex_state [a_md])) = []"
proof -
  let ?s = "snd (prepare_batch_requests ex_env ex_state [a_md])"
  have 1: "process_results ex_env [Item ex_result, Item ex_errored] (?s, {}) =
           process_results ex_env [Item ex_errored]
             (emit [Pbar_update]
                (emit [Log INFO (WroteOptimized (Path True [''data'', ''a-OPTIMIZED.md'']))]
                   (?s\<lparr>disk := (disk ?s)(Path True [''data'', ''a-OPTIMIZED.md''] := File ''Hi'')\<rparr>)),
              insert (res_custom_id ex_result) {})"
    by (rule process_results_succeeded [where f = a_md and t = "''Hi''"])
       (simp_all add: ex_result_def ex_mapping first_text_def ex_write)
  have 2: "process_results ex_env [Item ex_errored]
             (s, insert (res_custom_id ex_result) {}) = (None, s, {''req_1''})" for s
    by (simp add: ex_result_def ex_errored_def)
  show ?thesis
    by (simp only: 1 2 emit_emit ex_trace) (simp add: ex_errored_def)
qed

text \<open>
  C5, amended: a result with outcome \<^verbatim>\<open>errored\<close> or \<^verbatim>\<open>expired\<close> whose custom id is not yet
  marked processed gets the log line \<^verbatim>\<open>Request ... failed.\<close>, its custom id is marked
  processed, nothing is written to the disk, and the pass goes on with the remaining
  results; when its custom id is already marked processed the result is skipped, nothing
  is logged, and the pass goes on as well.
\<close>

theorem C5_failed_result:
  assumes "res_type r = ''errored'' \<or> res_type r = ''expired''"
  shows "(res_custom_id r \<notin> P \<longrightarrow>
            process_results e (Item r # rest) (s, P) =
              process_results e rest
                (emit [Log ERROR (RequestFailed (res_custom_id r)), Pbar_update] s,
                 insert (res_custom_id r) P)) \<and>
         (res_custom_id r \<in> P \<longrightarrow>
            process_results e (Item r # rest) (s, P) = process_results e rest (s, P)) \<and>
         disk (emit [Log ERROR (RequestFailed (res_custom_id r)), Pbar_update] s) = disk s"
  using assms by (auto simp: emit_fields)

theorem C5_failed_result_witness:
  "res_type ex_errored = ''errored'' \<and> res_custom_id ex_errored \<notin> {} \<and>
   process_results ex_env [Item ex_errored] (ex_state, {}) =
     (None, emit [Log ERROR (RequestFailed ''req_1''), Pbar_update] ex_state, {''req_1''})"
proof -
  have h: "res_type ex_errored = ''errored'' \<or> res_type ex_errored = ''expired''"
    by (simp add: ex_errored_def)
  show ?thesis
    using C5_failed_result [OF h, of "{}" ex_env "[]" ex_state]
    by (simp add: ex_errored_def)
qed

section \<open>The polling loop\<close>

lemma poll_loop_done:
  "\<not> card P < length fs \<Longrightarrow> poll_loop e b fs n (s, P) = Some (None, s, P)"
  by (subst poll_loop.simps) simp

lemma poll_loop_raise:
  "fs \<noteq> [] \<Longrightarrow> batches_retrieve e b n = Inl x \<Longrightarrow>
   poll_loop e b fs n (s, {}) = Some (Some x, emit [Retrieve b] s, {})"
  by (subst poll_loop.simps) simp

lemma poll_loop_ended:
  "fs \<noteq> [] \<Longrightarrow> batches_retrieve e b n = Inr mb \<Longrightarrow> processing_status mb = ''ended'' \<Longrightarrow>
   poll_loop e b fs n (s, {}) =
     Some (process_results e (batches_results e b)
             (emit [Retrieve b, Log INFO (BatchStatus (mb_id mb) ''ended''), Results b] s, {}))"
  by (subst poll_loop.simps) (simp add: emit_emit Let_def)

lemma poll_loop_step:
  "fs \<noteq> [] \<Longrightarrow> batches_retrieve e b n = Inr mb \<Longrightarrow> processing_status mb \<noteq> ''ended'' \<Longrightarrow>
   poll_loop e b fs n (s, {}) = poll_loop e b fs (Suc n) (emit (poll_trace b [mb]) s, {})"
  by (subst poll_loop.simps) (simp add: emit_emit Let_def poll_trace_def)

lemma poll_trace_Cons: "poll_trace b (mb # mbs) = poll_trace b [mb] @ poll_trace b mbs"
  by (simp add: poll_trace_def)

lemma poll_trace_Nil: "poll_trace b [] = []"
  by (simp add: poll_trace_def)

lemma emit_Nil: "emit [] s = s"
  by (simp add: emit_def)

lemma poll_loop_run:
  "fs \<noteq> [] \<Longrightarrow> \<forall>i<length mbs. batches_retrieve e b (n + i) = Inr (mbs ! i) \<Longrightarrow>
   \<forall>mb\<in>set mbs. processing_status mb \<noteq> ''ended'' \<Longrightarrow>
   poll_loop e b fs n (s, {}) = poll_loop e b fs (n + length mbs) (emit (poll_trace b mbs) s, {})"
proof (induction mbs arbitrary: n s)
  case Nil
  then show ?case by (simp add: poll_trace_Nil emit_Nil)
next
  case (Cons mb mbs)
  from Cons.prems(2) have h0: "batches_retrieve e b n = Inr mb" by force
  have hs: "\<forall>i<length mbs. batches_retrieve e b (Suc n + i) = Inr (mbs ! i)"
  proof (intro allI impI)
    fix i assume "i < length mbs"
    then have "Suc i < length (mb # mbs)" by simp
    with Cons.prems(2) have "batches_retrieve e b (n + Suc i) = Inr ((mb # mbs) ! Suc i)" by blast
    then show "batches_retrieve e b (Suc n + i) = Inr (mbs ! i)" by simp
  qed
  from Cons.prems(3) have ne: "processing_status mb \<noteq> ''ended''"
    and nes: "\<forall>mb\<in>set mbs. processing_status mb \<noteq> ''ended''" by simp_all
  have "poll_loop e b fs n (s, {}) = poll_loop e b fs (Suc n) (emit (poll_trace b [mb]) s, {})"
    using Cons.prems(1) h0 ne by (rule poll_loop_step)
  also have "\<dots> = poll_loop e b fs (Suc n + length mbs)
                      (emit (poll_trace b mbs) (emit (poll_trace b [mb]) s), {})"
    using Cons.prems(1) hs nes by (rule Cons.IH)
  also have "\<dots> = poll_loop e b fs (n + length (mb # mbs)) (emit (poll_trace b (mb # mbs)) s, {})"
    by (simp add: emit_emit poll_trace_Cons [of b mb mbs])
  finally show ?case .
qed

lemma poll_trace_in_progress:
  "\<forall>mb\<in>set mbs. processing_status mb = ''in_progress'' \<Longrightarrow>
   poll_trace b mbs =
     concat (map (\<lambda>mb. [Retrieve b, Log INFO (BatchStatus (mb_id mb) ''in_progress''), Sleep 5]) mbs)"
  by (induction mbs) (simp_all add: poll_trace_def retry_interval_def)

subsection \<open>Sleeping between status requests\<close>

text \<open>
  C8: in an iteration that finds the status \<^verbatim>\<open>in_progress\<close> the loop requests the status,
  logs it, sleeps 5 seconds and starts the next iteration, and does nothing else.  When
  the first \<open>k\<close> answers are \<^verbatim>\<open>in_progress\<close> and the next is \<^verbatim>\<open>ended\<close>, the pass over the
  results starts after exactly \<open>k + 1\<close> status requests, with a sleep of 5 seconds between
  any two of them.  (Time is the sleep the program asks for; the list of files is not
  empty, so that the loop is entered.)
\<close>

theorem C8_polling:
  assumes "fs \<noteq> []"
  shows "(\<forall>n mb s'. batches_retrieve e b n = Inr mb \<and> processing_status mb = ''in_progress'' \<longrightarrow>
            poll_loop e b fs n (s', {}) =
              poll_loop e b fs (Suc n)
                (emit [Retrieve b, Log INFO (BatchStatus (mb_id mb) ''in_progress''), Sleep 5] s', {})) \<and>
         ((\<forall>i<length mbs. batches_retrieve e b i = Inr (mbs ! i)) \<and>
          (\<forall>mb\<in>set mbs. processing_status mb = ''in_progress'') \<and>
          batches_retrieve e b (length mbs) = Inr mbe \<and> processing_status mbe = ''ended'' \<longrightarrow>
            poll_loop e b fs 0 (s, {}) =
              Some (process_results e (batches_results e b)
                (emit (concat (map (\<lambda>mb. [Retrieve b,
                                            Log INFO (BatchStatus (mb_id mb) ''in_progress''),
                                            Sleep 5]) mbs) @
                       [Retrieve b, Log INFO (BatchStatus (mb_id mbe) ''ended''), Results b]) s, {})) \<and>
            length (filter (\<lambda>ev. ev = Retrieve b)
              (concat (map (\<lambda>mb. [Retrieve b,
                                      Log INFO (BatchStatus (mb_id mb) ''in_progress''),
                                      Sleep 5]) mbs) @
               [Retrieve b, Log INFO (BatchStatus (mb_id mbe) ''ended''), Results b])) =
              Suc (length mbs))"
proof (intro conjI allI impI)
  fix n mb s'
  assume h: "batches_retrieve e b n = Inr mb \<and> processing_status mb = ''in_progress''"
  then have "poll_loop e b fs n (s', {}) = poll_loop e b fs (Suc n) (emit (poll_trace b [mb]) s', {})"
    using assms by (intro poll_loop_step) simp_all
  with h show "poll_loop e b fs n (s', {}) =
      poll_loop e b fs (Suc n)
        (emit [Retrieve b, Log INFO (BatchStatus (mb_id mb) ''in_progress''), Sleep 5] s', {})"
    by (simp add: poll_trace_def retry_interval_def)
next
  assume h: "(\<forall>i<length mbs. batches_retrieve e b i = Inr (mbs ! i)) \<and>
          (\<forall>mb\<in>set mbs. processing_status mb = ''in_progress'') \<and>
          batches_retrieve e b (length mbs) = Inr mbe \<and> processing_status mbe = ''ended''"
  then have ne: "\<forall>mb\<in>set mbs. processing_status mb \<noteq> ''ended''" by simp
  from h have r: "\<forall>i<length mbs. batches_retrieve e b (0 + i) = Inr (mbs ! i)" by simp
  have "poll_loop e b fs 0 (s, {}) = poll_loop e b fs (0 + length mbs) (emit (poll_trace b mbs) s, {})"
    using assms r ne by (rule poll_loop_run)
  also have "\<dots> = Some (process_results e (batches_results e b)
      (emit [Retrieve b, Log INFO (BatchStatus (mb_id mbe) ''ended''), Results b]
         (emit (poll_trace b mbs) s), {}))"
    using assms h by (simp add: poll_loop_ended)
  finally show "poll_loop e b fs 0 (s, {}) =
      Some (process_results e (batches_results e b)
        (emit (concat (map (\<lambda>mb. [Retrieve b,
                                    Log INFO (BatchStatus (mb_id mb) ''in_progress''),
                                    Sleep 5]) mbs) @
               [Retrieve b, Log INFO (BatchStatus (mb_id mbe) ''ended''), Results b]) s, {}))"
    using h by (simp add: emit_emit poll_trace_in_progress)
next
  show "length (filter (\<lambda>ev. ev = Retrieve b)
              (concat (map (\<lambda>mb. [Retrieve b,
                                      Log INFO (BatchStatus (mb_id mb) ''in_progress''),
                                      Sleep 5]) mbs) @
               [Retrieve b, Log INFO (BatchStatus (mb_id mbe) ''ended''), Results b])) =
              Suc (length mbs)"
    by (induction mbs) simp_all
qed

theorem C8_polling_witness:
  "[a_md] \<noteq> [] \<and>
   batches_retrieve ex_env_slow ''batch_1'' 0 =
     Inr \<lparr>mb_id = ''batch_1'', processing_status = ''in_progress''\<rparr> \<and>
   batches_retrieve ex_env_slow ''batch_1'' 1 =
     Inr \<lparr>mb_id = ''batch_1'', processing_status = ''in_progress''\<rparr> \<and>
   batches_retrieve ex_env_slow ''batch_1'' 2 =
     Inr \<lparr>mb_id = ''batch_1'', processing_status = ''ended''\<rparr> \<and>
   poll_loop ex_env_slow ''batch_1'' [a_md] 0 (ex_state, {}) =
     Some (process_results ex_env_slow (batches_results ex_env_slow ''batch_1'')
       (emit [Retrieve ''batch_1'', Log INFO (BatchStatus ''batch_1'' ''in_progress''), Sleep 5,
              Retrieve ''batch_1'', Log INFO (BatchStatus ''batch_1'' ''in_progress''), Sleep 5,
              Retrieve ''batch_1'', Log INFO (BatchStatus ''batch_1'' ''ended''),
              Results ''batch_1''] ex_state, {}))"
proof -
  let ?ip = "\<lparr>mb_id = ''batch_1'', processing_status = ''in_progress''\<rparr>"
  let ?en = "\<lparr>mb_id = ''batch_1'', processing_status = ''ended''\<rparr>"
  have 0: "batches_retrieve ex_env_slow ''batch_1'' 0 = Inr ?ip"
    and 1: "batches_retrieve ex_env_slow ''batch_1'' 1 = Inr ?ip"
    and 2: "batches_retrieve ex_env_slow ''batch_1'' 2 = Inr ?en"
    by (simp_all add: ex_env_slow_def)
  have a: "\<forall>i<length [?ip, ?ip]. batches_retrieve ex_env_slow ''batch_1'' i = Inr ([?ip, ?ip] ! i)"
    using 0 1 by (simp add: less_Suc_eq nth_Cons')
  have f: "[a_md] \<noteq> []" by simp
  show ?thesis
    using C8_polling [OF f, of ex_env_slow "''batch_1''" "[?ip, ?ip]" ?en ex_state] a 0 1 2
    by (simp add: numeral_2_eq_2)
qed

subsection \<open>A result that is never marked processed\<close>

text \<open>
  C1 says that the loop does not end before every issued custom id is marked processed.
  The loop leaves by \<^verbatim>\<open>break\<close> after one pass over the results, whatever that pass marked.
  Here \<open>req_1\<close> is issued, the batch has ended, and its only result has the outcome
  \<^verbatim>\<open>canceled\<close>, which neither branch of the pass handles: \<open>process_batch_results\<close> returns
  normally with no id marked processed.
\<close>

theorem C1_canceled_result_unprocessed:
  "map custom_id (fst (prepare_batch_requests ex_env_canceled ex_state [a_md])) = [''req_1''] \<and>
   process_batch_results ex_env_canceled ''batch_1'' [a_md]
       (snd (prepare_batch_requests ex_env_canceled ex_state [a_md])) =
     Some (Inr (),
           emit [Pbar_create 1, Retrieve ''batch_1'',
                 Log INFO (BatchStatus ''batch_1'' ''ended''), Results ''batch_1'', Pbar_close]
             (snd (prepare_batch_requests ex_env_canceled ex_state [a_md])),
           {})"
proof -
  have hc: "has_content ex_env_canceled ex_disk a_md"
    using ex_has_a by (simp add: has_content_def ex_env_canceled_def)
  have ids: "map custom_id (fst (prepare_batch_requests ex_env_canceled ex_state [a_md])) = [''req_1'']"
    by (simp add: prepare_ids issued_Cons issued_Nil ex_state_def hc req_id_1)
  have r: "batches_retrieve ex_env_canceled ''batch_1'' 0 =
             Inr \<lparr>mb_id = ''batch_1'', processing_status = ''ended''\<rparr>"
    by (simp add: ex_env_canceled_def ex_env_def)
  have p: "poll_loop ex_env_canceled ''batch_1'' [a_md] 0 (s, {}) =
             Some (None, emit [Retrieve ''batch_1'', Log INFO (BatchStatus ''batch_1'' ''ended''),
                               Results ''batch_1''] s, {})" for s
    using poll_loop_ended [of "[a_md]" ex_env_canceled "''batch_1''" 0 _ s, OF _ r]
    by (simp add: ex_env_canceled_def)
  show ?thesis
    by (simp add: ids process_batch_results_def process_batch_results_body_def p emit_emit)
qed

section \<open>Exceptions of the service\<close>

lemma prepare_nonempty: "fst (prepare_batch_requests e s fs) \<noteq> [] \<Longrightarrow> fs \<noteq> []"
  by (auto simp: prepare_requests issued_Nil)

lemma process_files_create_raises:
  "prepare_batch_requests e s fs = (rs, s1) \<Longrightarrow> rs \<noteq> [] \<Longrightarrow> batches_create e rs = Inl x \<Longrightarrow>
   process_files e s fs = Some (Inr (), emit [Create rs, Log ERROR (ErrorInBatch x)] s1)"
  by (simp add: process_files_def process_files_body_def emit_emit)

lemma process_files_loop_raises:
  "prepare_batch_requests e s fs = (rs, s1) \<Longrightarrow> rs \<noteq> [] \<Longrightarrow> batches_create e rs = Inr b \<Longrightarrow>
   process_batch_results e b fs (emit [Create rs] s1) = Some (Inl x, s2, P) \<Longrightarrow>
   process_files e s fs = Some (Inr (), emit [Log ERROR (ErrorInBatch x)] s2)"
  by (simp add: process_files_def process_files_body_def)

lemma process_batch_results_raises:
  "poll_loop e b fs 0 (emit [Pbar_create (length fs)] s, {}) = Some (Some x, s2, P) \<Longrightarrow>
   process_batch_results e b fs s = Some (Inl x, emit [Log ERROR (ErrorInBatch x)] s2, P)"
  by (simp add: process_batch_results_def process_batch_results_body_def)


lemma poll_retrieve_raises:
  assumes "fs \<noteq> []" "\<forall>i<length mbs. batches_retrieve e b i = Inr (mbs ! i)"
    "\<forall>mb\<in>set mbs. processing_status mb \<noteq> ''ended''"
    "batches_retrieve e b (length mbs) = Inl x"
  shows "poll_loop e b fs 0 (s, {}) = Some (Some x, emit (poll_trace b mbs @ [Retrieve b]) s, {})"
proof -
  from assms(2) have r: "\<forall>i<length mbs. batches_retrieve e b (0 + i) = Inr (mbs ! i)" by simp
  have "poll_loop e b fs 0 (s, {}) = poll_loop e b fs (0 + length mbs) (emit (poll_trace b mbs) s, {})"
    using assms(1) r assms(3) by (rule poll_loop_run)
  also have "\<dots> = Some (Some x, emit [Retrieve b] (emit (poll_trace b mbs) s), {})"
    using assms(1,4) by (simp add: poll_loop_raise)
  finally show ?thesis by (simp add: emit_emit)
qed

lemma poll_reaches_results:
  assumes "fs \<noteq> []" "\<forall>i<length mbs. batches_retrieve e b i = Inr (mbs ! i)"
    "\<forall>mb\<in>set mbs. processing_status mb \<noteq> ''ended''"
    "batches_retrieve e b (length mbs) = Inr mbe" "processing_status mbe = ''ended''"
  shows "poll_loop e b fs 0 (s, {}) =
           Some (process_results e (batches_results e b)
                   (emit (poll_trace b mbs @
                          [Retrieve b, Log INFO (BatchStatus (mb_id mbe) ''ended''), Results b]) s, {}))"
proof -
  from assms(2) have r: "\<forall>i<length mbs. batches_retrieve e b (0 + i) = Inr (mbs ! i)" by simp
  have "poll_loop e b fs 0 (s, {}) = poll_loop e b fs (0 + length mbs) (emit (poll_trace b mbs) s, {})"
    using assms(1) r assms(3) by (rule poll_loop_run)
  also have "\<dots> = Some (process_results e (batches_results e b)
      (emit [Retrieve b, Log INFO (BatchStatus (mb_id mbe) ''ended''), Results b]
         (emit (poll_trace b mbs) s), {}))"
    using assms(1,4,5) by (simp add: poll_loop_ended)
  finally show ?thesis by (simp add: emit_emit)
qed

lemma ex_prepare:
  assumes "base_dir e = ex_base"
  shows "prepare_batch_requests e ex_state [a_md] =
     ([mk_request e ''req_1'' ''Hello''], snd (prepare_batch_requests e ex_state [a_md]))"
proof -
  have hc: "has_content e ex_disk a_md"
    using assms by (simp add: has_content_def ex_base_def a_md_def joinpath_def ex_disk_def)
  have ft: "file_text e ex_disk a_md = ''Hello''"
    using assms by (simp add: file_text_def ex_base_def a_md_def joinpath_def ex_disk_def)
  have "fst (prepare_batch_requests e ex_state [a_md]) = [mk_request e ''req_1'' ''Hello'']"
    by (simp add: prepare_requests issued_Cons issued_Nil ex_state_def hc req_id_1 ft)
  then show ?thesis by (simp add: prod_eq_iff)
qed

lemma ex_down_prepare:
  "prepare_batch_requests ex_env_down ex_state [a_md] =
     ([mk_request ex_env_down ''req_1'' ''Hello''],
      snd (prepare_batch_requests ex_env_down ex_state [a_md]))"
  by (rule ex_prepare) (simp add: ex_env_down_def ex_env_def)

lemma ex_unreachable_prepare:
  "prepare_batch_requests ex_env_unreachable ex_state [a_md] =
     ([mk_request ex_env_unreachable ''req_1'' ''Hello''],
      snd (prepare_batch_requests ex_env_unreachable ex_state [a_md]))"
  by (rule ex_prepare) (simp add: ex_env_unreachable_def ex_env_def)

lemma ex_broken_prepare:
  "prepare_batch_requests ex_env_broken ex_state [a_md] =
     ([mk_request ex_env_broken ''req_1'' ''Hello''],
      snd (prepare_batch_requests ex_env_broken ex_state [a_md]))"
  by (rule ex_prepare) (simp add: ex_env_broken_def ex_env_def)

subsection \<open>The small world, with any service\<close>

lemma ex_joinpath: "joinpath ex_base a_md = Path True [''data'', ''a.md'']"
  by (simp add: ex_base_def a_md_def joinpath_def)

lemma ex_has_a_any: "base_dir e = ex_base \<Longrightarrow> has_content e ex_disk a_md"
  by (simp add: has_content_def ex_joinpath ex_disk_def)

lemma ex_mapping_any:
  "base_dir e = ex_base \<Longrightarrow>
   custom_id_to_filename (snd (prepare_batch_requests e ex_state [a_md])) ''req_1'' = Some a_md"
  by (simp add: prepare_mapping issued_Cons issued_Nil ex_has_a_any req_id_1 ex_state_def)

lemma ex_trace_any:
  "base_dir e = ex_base \<Longrightarrow> trace (snd (prepare_batch_requests e ex_state [a_md])) = []"
  by (simp add: prepare_trace read_log_def ex_state_def ex_disk_def ex_joinpath)

lemma ex_disk_any: "disk (snd (prepare_batch_requests e ex_state fs)) = ex_disk"
  by (simp add: prepare_disk ex_state_def)

lemma ex_pass_written:
  assumes "base_dir e = ex_base"
    and "write_outcome e (Path True [''data'', ''a-OPTIMIZED.md'']) = Writable"
    and "custom_id_to_filename s ''req_1'' = Some a_md"
  shows "process_results e (Item ex_result # rest) (s, {}) =
     process_results e rest
       (emit [Log INFO (WroteOptimized (Path True [''data'', ''a-OPTIMIZED.md''])), Pbar_update]
          (s\<lparr>disk := (disk s)(Path True [''data'', ''a-OPTIMIZED.md''] := File ''Hi'')\<rparr>),
        {''req_1''})"
proof -
  have w: "write_optimized_content e s (joinpath (base_dir e) a_md) ''Hi'' =
     Inr (emit [Log INFO (WroteOptimized (Path True [''data'', ''a-OPTIMIZED.md'']))]
            (s\<lparr>disk := (disk s)(Path True [''data'', ''a-OPTIMIZED.md''] := File ''Hi'')\<rparr>))"
    using write_writable [of "Path True [''data'', ''a.md'']" e s "''Hi''"] assms(1,2)
    by (simp add: ex_joinpath ex_optimized_path)
  have "process_results e (Item ex_result # rest) (s, {}) =
     process_results e rest
       (emit [Pbar_update]
          (emit [Log INFO (WroteOptimized (Path True [''data'', ''a-OPTIMIZED.md'']))]
             (s\<lparr>disk := (disk s)(Path True [''data'', ''a-OPTIMIZED.md''] := File ''Hi'')\<rparr>)),
        insert (res_custom_id ex_result) {})"
    by (rule process_results_succeeded [where f = a_md and t = "''Hi''"])
       (simp_all add: ex_result_def assms(3) first_text_def w)
  then show ?thesis by (simp add: emit_emit ex_result_def)
qed



lemma ex_cut_prepare:
  "prepare_batch_requests ex_env_cut ex_state [a_md] =
     ([mk_request ex_env_cut ''req_1'' ''Hello''],
      snd (prepare_batch_requests ex_env_cut ex_state [a_md]))"
  by (rule ex_prepare) (simp add: ex_env_cut_def ex_env_def)

lemma process_results_append:
  "process_results e pre st = (None, s2, P) \<Longrightarrow>
   process_results e (pre @ rest) st = process_results e rest (s2, P)"
  by (induction e pre st rule: process_results.induct)
     (auto simp: Let_def split: if_splits option.splits sum.splits)

subsection \<open>Where an exception of the service ends\<close>

text \<open>
  C6, as stated: an exception of the service surfaces to the caller of \<open>process_files\<close>.
  The handler of \<open>process_files\<close> logs the exception and does not raise it again.  Here the
  service refuses the batch; \<open>process_files\<close> returns normally.
\<close>

theorem C6_counterexample:
  "batches_create ex_env_down [mk_request ex_env_down ''req_1'' ''Hello''] =
     Inl (APIError ''overloaded'') \<and>
   process_files ex_env_down ex_state [a_md] =
     Some (Inr (),
           emit [Create [mk_request ex_env_down ''req_1'' ''Hello''],
                 Log ERROR (ErrorInBatch (APIError ''overloaded''))]
             (snd (prepare_batch_requests ex_env_down ex_state [a_md])))"
proof -
  have c: "batches_create ex_env_down [mk_request ex_env_down ''req_1'' ''Hello''] =
     Inl (APIError ''overloaded'')" by (simp add: ex_env_down_def)
  show ?thesis
    using process_files_create_raises [OF ex_down_prepare _ c] c by simp
qed

text \<open>
  C6, amended: when the service raises during submission, or in the polling loop (on a
  status request, or when the results are fetched, at the first result or after some
  results have been processed), the run stops there and the error is logged: the results
  after the failure are not looked at.  An exception in the polling loop leaves
  \<open>process_batch_results\<close>, which logs it and raises it again; \<open>process_files\<close> logs it
  (a second time) and returns normally: no exception reaches the caller of
  \<open>process_files\<close>.
\<close>

theorem C6_service_error:
  assumes "prepare_batch_requests e s fs = (rs, s1)" and "rs \<noteq> []"
  shows "(batches_create e rs = Inl x \<longrightarrow>
            process_files e s fs =
              Some (Inr (), emit [Create rs, Log ERROR (ErrorInBatch x)] s1)) \<and>
         (batches_create e rs = Inr b \<and>
          (\<forall>i<length mbs. batches_retrieve e b i = Inr (mbs ! i)) \<and>
          (\<forall>mb\<in>set mbs. processing_status mb \<noteq> ''ended'') \<and>
          batches_retrieve e b (length mbs) = Inl x \<longrightarrow>
            process_batch_results e b fs (emit [Create rs] s1) =
              Some (Inl x,
                    emit ([Create rs, Pbar_create (length fs)] @ poll_trace b mbs @
                          [Retrieve b, Log ERROR (ErrorInBatch x)]) s1, {}) \<and>
            process_files e s fs =
              Some (Inr (),
                    emit ([Create rs, Pbar_create (length fs)] @ poll_trace b mbs @
                          [Retrieve b, Log ERROR (ErrorInBatch x), Log ERROR (ErrorInBatch x)]) s1)) \<and>
         (batches_create e rs = Inr b \<and>
          (\<forall>i<length mbs. batches_retrieve e b i = Inr (mbs ! i)) \<and>
          (\<forall>mb\<in>set mbs. processing_status mb \<noteq> ''ended'') \<and>
          batches_retrieve e b (length mbs) = Inr mbe \<and> processing_status mbe = ''ended'' \<and>
          batches_results e b = pre @ Fail x # rest \<and>
          process_results e pre
            (emit ([Create rs, Pbar_create (length fs)] @ poll_trace b mbs @
                   [Retrieve b, Log INFO (BatchStatus (mb_id mbe) ''ended''), Results b]) s1, {}) =
            (None, s2, P) \<longrightarrow>
            process_batch_results e b fs (emit [Create rs] s1) =
              Some (Inl x, emit [Log ERROR (ErrorInBatch x)] s2, P) \<and>
            process_files e s fs =
              Some (Inr (), emit [Log ERROR (ErrorInBatch x), Log ERROR (ErrorInBatch x)] s2))"
proof -
  from assms have fs: "fs \<noteq> []" using prepare_nonempty [of e s fs] by simp
  have A: "batches_create e rs = Inl x \<longrightarrow>
            process_files e s fs = Some (Inr (), emit [Create rs, Log ERROR (ErrorInBatch x)] s1)"
    using assms by (simp add: process_files_create_raises)
  have B: "process_batch_results e b fs (emit [Create rs] s1) =
              Some (Inl x,
                    emit ([Create rs, Pbar_create (length fs)] @ poll_trace b mbs @
                          [Retrieve b, Log ERROR (ErrorInBatch x)]) s1, {}) \<and>
            process_files e s fs =
              Some (Inr (),
                    emit ([Create rs, Pbar_create (length fs)] @ poll_trace b mbs @
                          [Retrieve b, Log ERROR (ErrorInBatch x), Log ERROR (ErrorInBatch x)]) s1)"
    if h: "batches_create e rs = Inr b \<and>
          (\<forall>i<length mbs. batches_retrieve e b i = Inr (mbs ! i)) \<and>
          (\<forall>mb\<in>set mbs. processing_status mb \<noteq> ''ended'') \<and>
          batches_retrieve e b (length mbs) = Inl x"
  proof -
    have p: "poll_loop e b fs 0 (emit [Pbar_create (length fs)] (emit [Create rs] s1), {}) =
               Some (Some x, emit (poll_trace b mbs @ [Retrieve b])
                               (emit [Pbar_create (length fs)] (emit [Create rs] s1)), {})"
      using fs h by (intro poll_retrieve_raises) simp_all
    have r: "process_batch_results e b fs (emit [Create rs] s1) =
               Some (Inl x, emit [Log ERROR (ErrorInBatch x)]
                              (emit (poll_trace b mbs @ [Retrieve b])
                                 (emit [Pbar_create (length fs)] (emit [Create rs] s1))), {})"
      using p by (rule process_batch_results_raises)
    have f: "process_files e s fs =
               Some (Inr (), emit [Log ERROR (ErrorInBatch x)]
                      (emit [Log ERROR (ErrorInBatch x)]
                              (emit (poll_trace b mbs @ [Retrieve b])
                                 (emit [Pbar_create (length fs)] (emit [Create rs] s1)))))"
      using assms h r by (intro process_files_loop_raises) simp_all
    show ?thesis using r f by (simp add: emit_emit)
  qed
  have C: "process_batch_results e b fs (emit [Create rs] s1) =
              Some (Inl x, emit [Log ERROR (ErrorInBatch x)] s2, P) \<and>
            process_files e s fs =
              Some (Inr (), emit [Log ERROR (ErrorInBatch x), Log ERROR (ErrorInBatch x)] s2)"
    if h: "batches_create e rs = Inr b \<and>
          (\<forall>i<length mbs. batches_retrieve e b i = Inr (mbs ! i)) \<and>
          (\<forall>mb\<in>set mbs. processing_status mb \<noteq> ''ended'') \<and>
          batches_retrieve e b (length mbs) = Inr mbe \<and> processing_status mbe = ''ended'' \<and>
          batches_results e b = pre @ Fail x # rest \<and>
          process_results e pre
            (emit ([Create rs, Pbar_create (length fs)] @ poll_trace b mbs @
                   [Retrieve b, Log INFO (BatchStatus (mb_id mbe) ''ended''), Results b]) s1, {}) =
            (None, s2, P)"
  proof -
    let ?s0 = "emit [Pbar_create (length fs)] (emit [Create rs] s1)"
    let ?ev = "poll_trace b mbs @ [Retrieve b, Log INFO (BatchStatus (mb_id mbe) ''ended''), Results b]"
    have e0: "emit ?ev ?s0 =
                emit ([Create rs, Pbar_create (length fs)] @ poll_trace b mbs @
                      [Retrieve b, Log INFO (BatchStatus (mb_id mbe) ''ended''), Results b]) s1"
      by (simp add: emit_emit)
    have "poll_loop e b fs 0 (?s0, {}) =
            Some (process_results e (batches_results e b) (emit ?ev ?s0, {}))"
      using fs h by (intro poll_reaches_results) simp_all
    also have "process_results e (batches_results e b) (emit ?ev ?s0, {}) =
                 process_results e (Fail x # rest) (s2, P)"
      using h process_results_append [of e pre "(emit ?ev ?s0, {})" s2 P "Fail x # rest"]
      by (simp only: e0)
    finally have p: "poll_loop e b fs 0 (?s0, {}) = Some (Some x, s2, P)" by simp
    have r: "process_batch_results e b fs (emit [Create rs] s1) =
               Some (Inl x, emit [Log ERROR (ErrorInBatch x)] s2, P)"
      using p by (rule process_batch_results_raises)
    have f: "process_files e s fs =
               Some (Inr (), emit [Log ERROR (ErrorInBatch x)] (emit [Log ERROR (ErrorInBatch x)] s2))"
      using assms h r by (intro process_files_loop_raises) simp_all
    show ?thesis using r f by (simp add: emit_emit)
  qed
  from A B C show ?thesis by blast
qed

theorem C6_service_error_witness:
  "[mk_request ex_env_down ''req_1'' ''Hello''] \<noteq> [] \<and>
   batches_create ex_env_down [mk_request ex_env_down ''req_1'' ''Hello''] =
     Inl (APIError ''overloaded'') \<and>
   process_files ex_env_down ex_state [a_md] =
     Some (Inr (),
           emit [Create [mk_request ex_env_down ''req_1'' ''Hello''],
                 Log ERROR (ErrorInBatch (APIError ''overloaded''))]
             (snd (prepare_batch_requests ex_env_down ex_state [a_md]))) \<and>
   batches_create ex_env_unreachable [mk_request ex_env_unreachable ''req_1'' ''Hello''] =
     Inr ''batch_1'' \<and>
   batches_retrieve ex_env_unreachable ''batch_1'' 0 = Inl (APIError ''timeout'') \<and>
   process_files ex_env_unreachable ex_state [a_md] =
     Some (Inr (),
           emit [Create [mk_request ex_env_unreachable ''req_1'' ''Hello''], Pbar_create 1,
                 Retrieve ''batch_1'', Log ERROR (ErrorInBatch (APIError ''timeout'')),
                 Log ERROR (ErrorInBatch (APIError ''timeout''))]
             (snd (prepare_batch_requests ex_env_unreachable ex_state [a_md]))) \<and>
   batches_create ex_env_broken [mk_request ex_env_broken ''req_1'' ''Hello''] = Inr ''batch_1'' \<and>
   batches_retrieve ex_env_broken ''batch_1'' 0 =
     Inr \<lparr>mb_id = ''batch_1'', processing_status = ''ended''\<rparr> \<and>
   batches_results ex_env_broken ''batch_1'' = [Fail (APIError ''reset'')] \<and>
   process_files ex_env_broken ex_state [a_md] =
     Some (Inr (),
           emit [Create [mk_request ex_env_broken ''req_1'' ''Hello''], Pbar_create 1,
                 Retrieve ''batch_1'', Log INFO (BatchStatus ''batch_1'' ''ended''),
                 Results ''batch_1'', Log ERROR (ErrorInBatch (APIError ''reset'')),
                 Log ERROR (ErrorInBatch (APIError ''reset''))]
             (snd (prepare_batch_requests ex_env_broken ex_state [a_md]))) \<and>
   batches_results ex_env_cut ''batch_1'' = [Item ex_result, Fail (APIError ''reset'')] \<and>
   process_files ex_env_cut ex_state [a_md] =
     Some (Inr (),
           emit [Create [mk_request ex_env_cut ''req_1'' ''Hello''], Pbar_create 1,
                 Retrieve ''batch_1'', Log INFO (BatchStatus ''batch_1'' ''ended''),
                 Results ''batch_1'',
                 Log INFO (WroteOptimized (Path True [''data'', ''a-OPTIMIZED.md''])), Pbar_update,
                 Log ERROR (ErrorInBatch (APIError ''reset'')),
                 Log ERROR (ErrorInBatch (APIError ''reset''))]
             ((snd (prepare_batch_requests ex_env_cut ex_state [a_md]))
                \<lparr>disk := ex_disk(Path True [''data'', ''a-OPTIMIZED.md''] := File ''Hi'')\<rparr>))"
proof -
  let ?en = "\<lparr>mb_id = ''batch_1'', processing_status = ''ended''\<rparr>"
  have n: "[mk_request e ''req_1'' ''Hello''] \<noteq> []" for e by simp
  have 1: "batches_create ex_env_down [mk_request ex_env_down ''req_1'' ''Hello''] =
     Inl (APIError ''overloaded'')" by (simp add: ex_env_down_def)
  have 2: "batches_create ex_env_unreachable [mk_request ex_env_unreachable ''req_1'' ''Hello''] =
     Inr ''batch_1''" by (simp add: ex_env_unreachable_def ex_env_def)
  have 3: "batches_retrieve ex_env_unreachable ''batch_1'' 0 = Inl (APIError ''timeout'')"
    by (simp add: ex_env_unreachable_def)
  have 4: "batches_create ex_env_broken [mk_request ex_env_broken ''req_1'' ''Hello''] = Inr ''batch_1''"
    by (simp add: ex_env_broken_def ex_env_def)
  have 5: "batches_retrieve ex_env_broken ''batch_1'' 0 = Inr ?en"
    by (simp add: ex_env_broken_def ex_env_def)
  have 6: "batches_results ex_env_broken ''batch_1'' = [Fail (APIError ''reset'')]"
    by (simp add: ex_env_broken_def)
  have 7: "batches_create ex_env_cut [mk_request ex_env_cut ''req_1'' ''Hello''] = Inr ''batch_1''"
    by (simp add: ex_env_cut_def ex_env_def)
  have 8: "batches_retrieve ex_env_cut ''batch_1'' 0 = Inr ?en"
    by (simp add: ex_env_cut_def ex_env_def)
  have 9: "batches_results ex_env_cut ''batch_1'' = [Item ex_result] @ [Fail (APIError ''reset'')]"
    by (simp add: ex_env_cut_def)
  have b: "base_dir ex_env_cut = ex_base" and
    w: "write_outcome ex_env_cut (Path True [''data'', ''a-OPTIMIZED.md'']) = Writable"
    by (simp_all add: ex_env_cut_def ex_env_def)
  let ?s1 = "snd (prepare_batch_requests ex_env_cut ex_state [a_md])"
  let ?s0 = "emit ([Create [mk_request ex_env_cut ''req_1'' ''Hello''], Pbar_create (length [a_md])] @
                   poll_trace ''batch_1'' [] @
                   [Retrieve ''batch_1'', Log INFO (BatchStatus (mb_id ?en) ''ended''),
                    Results ''batch_1'']) ?s1"
  let ?s2 = "emit [Log INFO (WroteOptimized (Path True [''data'', ''a-OPTIMIZED.md''])), Pbar_update]
               (?s0\<lparr>disk := (disk ?s0)(Path True [''data'', ''a-OPTIMIZED.md''] := File ''Hi'')\<rparr>)"
  have m: "custom_id_to_filename ?s0 ''req_1'' = Some a_md"
    by (simp add: emit_fields ex_mapping_any [OF b])
  have pass: "process_results ex_env_cut [Item ex_result] (?s0, {}) = (None, ?s2, {''req_1''})"
    using ex_pass_written [OF b w m, of "[]"] by simp
  have cut: "process_files ex_env_cut ex_state [a_md] =
      Some (Inr (), emit [Log ERROR (ErrorInBatch (APIError ''reset'')),
                          Log ERROR (ErrorInBatch (APIError ''reset''))] ?s2)"
    using C6_service_error [where e = ex_env_cut and s = ex_state and fs = "[a_md]" and
        b = "''batch_1''" and mbs = "[]" and mbe = ?en and pre = "[Item ex_result]" and
        x = "APIError ''reset''" and rest = "[]" and ?s2.0 = ?s2 and P = "{''req_1''}",
        OF ex_cut_prepare n] 7 8 9 pass
    by simp
  have cut': "process_files ex_env_cut ex_state [a_md] =
     Some (Inr (),
           emit [Create [mk_request ex_env_cut ''req_1'' ''Hello''], Pbar_create 1,
                 Retrieve ''batch_1'', Log INFO (BatchStatus ''batch_1'' ''ended''),
                 Results ''batch_1'',
                 Log INFO (WroteOptimized (Path True [''data'', ''a-OPTIMIZED.md''])), Pbar_update,
                 Log ERROR (ErrorInBatch (APIError ''reset'')),
                 Log ERROR (ErrorInBatch (APIError ''reset''))]
             (?s1\<lparr>disk := ex_disk(Path True [''data'', ''a-OPTIMIZED.md''] := File ''Hi'')\<rparr>))"
    unfolding cut by (simp add: emit_def poll_trace_Nil ex_disk_any)
  have first: "[mk_request ex_env_down ''req_1'' ''Hello''] \<noteq> [] \<and>
   batches_create ex_env_down [mk_request ex_env_down ''req_1'' ''Hello''] =
     Inl (APIError ''overloaded'') \<and>
   process_files ex_env_down ex_state [a_md] =
     Some (Inr (),
           emit [Create [mk_request ex_env_down ''req_1'' ''Hello''],
                 Log ERROR (ErrorInBatch (APIError ''overloaded''))]
             (snd (prepare_batch_requests ex_env_down ex_state [a_md]))) \<and>
   batches_create ex_env_unreachable [mk_request ex_env_unreachable ''req_1'' ''Hello''] =
     Inr ''batch_1'' \<and>
   batches_retrieve ex_env_unreachable ''batch_1'' 0 = Inl (APIError ''timeout'') \<and>
   process_files ex_env_unreachable ex_state [a_md] =
     Some (Inr (),
           emit [Create [mk_request ex_env_unreachable ''req_1'' ''Hello''], Pbar_create 1,
                 Retrieve ''batch_1'', Log ERROR (ErrorInBatch (APIError ''timeout'')),
                 Log ERROR (ErrorInBatch (APIError ''timeout''))]
             (snd (prepare_batch_requests ex_env_unreachable ex_state [a_md]))) \<and>
   batches_create ex_env_broken [mk_request ex_env_broken ''req_1'' ''Hello''] = Inr ''batch_1'' \<and>
   batches_retrieve ex_env_broken ''batch_1'' 0 =
     Inr \<lparr>mb_id = ''batch_1'', processing_status = ''ended''\<rparr> \<and>
   batches_results ex_env_broken ''batch_1'' = [Fail (APIError ''reset'')] \<and>
   process_files ex_env_broken ex_state [a_md] =
     Some (Inr (),
           emit [Create [mk_request ex_env_broken ''req_1'' ''Hello''], Pbar_create 1,
                 Retrieve ''batch_1'', Log INFO (BatchStatus ''batch_1'' ''ended''),
                 Results ''batch_1'', Log ERROR (ErrorInBatch (APIError ''reset'')),
                 Log ERROR (ErrorInBatch (APIError ''reset''))]
             (snd (prepare_batch_requests ex_env_broken ex_state [a_md])))"
    using C6_service_error [where e = ex_env_down and s = ex_state and fs = "[a_md]" and
        x = "APIError ''overloaded''", OF ex_down_prepare n]
      C6_service_error [where e = ex_env_unreachable and s = ex_state and fs = "[a_md]" and
        x = "APIError ''timeout''" and b = "''batch_1''" and mbs = "[]", OF ex_unreachable_prepare n]
      C6_service_error [where e = ex_env_broken and s = ex_state and fs = "[a_md]" and
        x = "APIError ''reset''" and b = "''batch_1''" and mbs = "[]" and mbe = ?en and
        pre = "[]" and rest = "[]" and
        ?s2.0 = "emit ([Create [mk_request ex_env_broken ''req_1'' ''Hello''], Pbar_create (length [a_md])] @
                   poll_trace ''batch_1'' [] @
                   [Retrieve ''batch_1'', Log INFO (BatchStatus (mb_id ?en) ''ended''),
                    Results ''batch_1''])
                 (snd (prepare_batch_requests ex_env_broken ex_state [a_md]))" and P = "{}",
        OF ex_broken_prepare n]
      1 2 3 4 5 6
    by (simp add: poll_trace_Nil emit_emit)
  have res: "batches_results ex_env_cut ''batch_1'' = [Item ex_result, Fail (APIError ''reset'')]"
    by (simp add: ex_env_cut_def)
  from first res cut' show ?thesis by (simp only: simp_thms)
qed

section \<open>Batches in which every result succeeded\<close>






section \<open>An output file that cannot be written\<close>







end
